theory Spec2Isabelle
  imports Main
begin

section \<open>Errors\<close>

text \<open>
  The JavaScript sources signal failure by throwing. Every throw of the modelled
  functions is a value of this type, returned on the left of a sum.
\<close>

datatype error = TypeError | SyntaxError | RangeError | URIError | Error

section \<open>PatternMap: the trie of path patterns (PatternMap.js)\<close>

subsection \<open>Patterns as the map sees them\<close>

text \<open>
  \<open>PatternMap\<close> reads two things of a \<open>Pattern\<close>: the iterator \<open>pattern.tokens\<close>
  (the path segments, as strings) and \<open>pattern.kind\<close>. The class \<open>Pattern\<close> itself is
  not part of the sources at hand, so a pattern is given by these two attributes.
  \<open>PatternMap.set\<close> accepts the kinds \<open>"exact"\<close> and \<open>"forward"\<close> only and tests
  for them, so a third constructor stands for every other kind.
\<close>

datatype kind = Exact | Forward | OtherKind

record pattern =
  tokens :: "string list"
  kind :: kind

text \<open>
  Edge keys of the trie: a string, or one of the two private symbols
  \<open>#wordwise_wildcard\<close> and \<open>#wildcard\<close>. A symbol is different from every string.
\<close>

datatype key = Literal string | wordwise_wildcard | wildcard

text \<open>
  A \<open>__Node__\<close> has a value (\<open>undefined\<close> is \<open>None\<close>) and the map \<open>#descendants\<close>
  from keys to nodes. The back edges \<open>#ancestors\<close> are only read by \<open>remove\<close> and
  \<open>getBack\<close>, which \<open>get\<close> and \<open>set\<close> never call; they are left out. Nodes are created
  by \<open>set\<close> alone, each one fresh and attached to one parent, so the mutable object
  graph is a tree and updating it in place is rebuilding the path to the changed node.
\<close>

datatype 'v node = Node (node_value: "'v option") (descendants: "key \<Rightarrow> 'v node option")

definition new_Node :: "'v node" where
  "new_Node = Node None (\<lambda>_. None)"

definition startsWith_colon :: "string \<Rightarrow> bool" where
  "startsWith_colon s = (case s of [] \<Rightarrow> False | c # _ \<Rightarrow> c = CHR '':'')"

definition token_key :: "string \<Rightarrow> key" where
  "token_key t = (if startsWith_colon t then wordwise_wildcard else Literal t)"

text \<open>
  \<open>PatternMap.#getKeys\<close>: every token but the last is yielded as its key; in place of
  the last token a forward pattern yields \<open>#wildcard\<close>, any other pattern the key of the
  last token. With no token at all \<open>prev\<close> is \<open>undefined\<close>: a forward pattern still
  yields \<open>#wildcard\<close>, any other one throws a TypeError at \<open>prev.startsWith\<close>. The
  generator is lazy, but it can only throw before it has yielded anything, so the keys
  are computed at once.
\<close>

definition getKeys :: "pattern \<Rightarrow> error + key list" where
  "getKeys p =
     (case tokens p of
        [] \<Rightarrow> (if kind p = Forward then Inr [wildcard] else Inl TypeError)
      | _ # _ \<Rightarrow>
          Inr (map token_key (butlast (tokens p)) @
               [if kind p = Forward then wildcard else token_key (last (tokens p))]))"

subsection \<open>set\<close>

text \<open>
  The loop of \<open>PatternMap.set\<close>, from the node reached so far: a \<open>#wordwise_wildcard\<close>
  child is entered whatever the key is; otherwise a \<open>#wildcard\<close> child is entered and
  the loop is left (\<open>break\<close>); otherwise the child under the key is entered, and
  created first when it is missing. After the loop the value of the node reached is
  assigned; the setter stores \<open>undefined\<close> for \<open>null\<close> and \<open>undefined\<close>, which is
  \<open>None\<close> here.
\<close>

fun set_keys :: "key list \<Rightarrow> 'v option \<Rightarrow> 'v node \<Rightarrow> 'v node" where
  "set_keys [] v (Node x ds) = Node v ds"
| "set_keys (k # ks) v (Node x ds) =
     (case ds wordwise_wildcard of
        Some c \<Rightarrow> Node x (ds(wordwise_wildcard \<mapsto> set_keys ks v c))
      | None \<Rightarrow>
         (case ds wildcard of
            Some c \<Rightarrow> Node x (ds(wildcard \<mapsto> set_keys [] v c))
          | None \<Rightarrow>
             (case ds k of
                Some c \<Rightarrow> Node x (ds(k \<mapsto> set_keys ks v c))
              | None \<Rightarrow> Node x (ds(k \<mapsto> set_keys ks v new_Node)))))"

definition PatternMap_set :: "'v node \<Rightarrow> pattern \<Rightarrow> 'v option \<Rightarrow> error + 'v node" where
  "PatternMap_set root p v =
     (if \<not> (kind p = Exact \<or> kind p = Forward) then Inl TypeError
      else case getKeys p of
             Inl e \<Rightarrow> Inl e
           | Inr ks \<Rightarrow> Inr (set_keys ks v root))"

subsection \<open>get\<close>

text \<open>
  \<open>PatternMap.#getNode\<close>: at each key, a \<open>#wildcard\<close> child of the current node is
  returned at once; otherwise the \<open>#wordwise_wildcard\<close> child is entered when there is
  one, and the child under the key when not; a missing child gives \<open>undefined\<close>.
\<close>

fun getNode_keys :: "key list \<Rightarrow> 'v node \<Rightarrow> 'v node option" where
  "getNode_keys [] n = Some n"
| "getNode_keys (k # ks) (Node x ds) =
     (case ds wildcard of
        Some c \<Rightarrow> Some c
      | None \<Rightarrow>
         (case (case ds wordwise_wildcard of Some c \<Rightarrow> Some c | None \<Rightarrow> ds k) of
            None \<Rightarrow> None
          | Some c \<Rightarrow> getNode_keys ks c))"

definition PatternMap_getNode :: "'v node \<Rightarrow> pattern \<Rightarrow> error + 'v node option" where
  "PatternMap_getNode root p =
     (case getKeys p of Inl e \<Rightarrow> Inl e | Inr ks \<Rightarrow> Inr (getNode_keys ks root))"

text \<open>\<open>PatternMap.get\<close> is \<open>this.#getNode(pattern)?.value\<close>.\<close>

definition PatternMap_get :: "'v node \<Rightarrow> pattern \<Rightarrow> error + 'v option" where
  "PatternMap_get root p =
     (case PatternMap_getNode root p of
        Inl e \<Rightarrow> Inl e
      | Inr None \<Rightarrow> Inr None
      | Inr (Some n) \<Rightarrow> Inr (node_value n))"

text \<open>
  Whether a lookup of the keys walks the edges labelled by the keys themselves: no node
  on the way has a \<open>#wildcard\<close> or \<open>#wordwise_wildcard\<close> child unless that child is
  the one the key names.
\<close>

fun own_path :: "key list \<Rightarrow> 'v node \<Rightarrow> bool" where
  "own_path [] n = True"
| "own_path (k # ks) (Node x ds) =
     ((ds wildcard \<noteq> None \<longrightarrow> k = wildcard) \<and>
      (ds wordwise_wildcard \<noteq> None \<longrightarrow> k = wordwise_wildcard) \<and>
      (case ds k of None \<Rightarrow> True | Some c \<Rightarrow> own_path ks c))"

text \<open>
  The trie read with plain trie semantics, for comparison: the value stored at the end
  of the path labelled by the keys, and insertion along that path.
\<close>

fun val_at :: "key list \<Rightarrow> 'v node \<Rightarrow> 'v option" where
  "val_at [] n = node_value n"
| "val_at (k # ks) (Node x ds) = (case ds k of None \<Rightarrow> None | Some c \<Rightarrow> val_at ks c)"

fun ins :: "key list \<Rightarrow> 'v option \<Rightarrow> 'v node \<Rightarrow> 'v node" where
  "ins [] v (Node x ds) = Node v ds"
| "ins (k # ks) v (Node x ds) =
     Node x (ds(k \<mapsto> ins ks v (case ds k of None \<Rightarrow> new_Node | Some c \<Rightarrow> c)))"

text \<open>\<open>#wildcard\<close> occurs in last position only, as in every output of \<open>#getKeys\<close>.\<close>

definition last_only :: "key list \<Rightarrow> bool" where
  "last_only ks = (wildcard \<notin> set (butlast ks))"

subsection \<open>Concrete patterns and maps\<close>

text \<open>The patterns \<open>/a/:x\<close>, \<open>/a/b\<close> and \<open>/a/c\<close>, and maps built from them.\<close>

definition P_ax :: pattern where
  "P_ax = \<lparr>tokens = [''a'', '':x''], kind = Exact\<rparr>"

definition P_ab :: pattern where
  "P_ab = \<lparr>tokens = [''a'', ''b''], kind = Exact\<rparr>"

definition P_ac :: pattern where
  "P_ac = \<lparr>tokens = [''a'', ''c''], kind = Exact\<rparr>"

definition M_ab :: "nat node" where
  "M_ab = set_keys [Literal ''a'', Literal ''b''] (Some 1) new_Node"

definition M_ab_ac :: "nat node" where
  "M_ab_ac = set_keys [Literal ''a'', Literal ''c''] (Some 2) M_ab"


section \<open>JavaScript values and strings\<close>

text \<open>
  The values that cross the modelled functions. A number is an integer or not
  (\<open>Number.isInteger\<close> is all the router asks of one); a \<open>Buffer\<close> is its bytes; an
  object is the list of its own enumerable properties in creation order, each name once.
\<close>

datatype jsval =
    JUndefined
  | JNull
  | JBool bool
  | JInt int
  | JNonInteger
  | JStr string
  | JBuffer string
  | JArr "jsval list"
  | JObj "(string \<times> jsval) list"

text \<open>
  \<open>toUpperCase\<close> and \<open>toLowerCase\<close> on the ASCII letters. Characters are bytes here;
  bytes outside ASCII are left as they are.
\<close>

definition ascii_lower :: string where
  "ascii_lower = ''abcdefghijklmnopqrstuvwxyz''"

definition ascii_upper :: string where
  "ascii_upper = ''ABCDEFGHIJKLMNOPQRSTUVWXYZ''"

definition toUpperCase_char :: "char \<Rightarrow> char" where
  "toUpperCase_char c = (case map_of (zip ascii_lower ascii_upper) c of Some u \<Rightarrow> u | None \<Rightarrow> c)"

definition toLowerCase_char :: "char \<Rightarrow> char" where
  "toLowerCase_char c = (case map_of (zip ascii_upper ascii_lower) c of Some l \<Rightarrow> l | None \<Rightarrow> c)"

definition toUpperCase :: "string \<Rightarrow> string" where
  "toUpperCase s = map toUpperCase_char s"

definition toLowerCase :: "string \<Rightarrow> string" where
  "toLowerCase s = map toLowerCase_char s"

text \<open>\<open>ToString\<close> of an array index: its decimal digits.\<close>

definition digit_char :: "nat \<Rightarrow> char" where
  "digit_char d = ''0123456789'' ! (d mod 10)"

fun index_string :: "nat \<Rightarrow> string" where
  "index_string n =
     (if n < 10 then [digit_char n] else index_string (n div 10) @ [digit_char (n mod 10)])"

section \<open>parseJson (Copyutil.js)\<close>

text \<open>
  \<open>parseJson(json, reviver)\<close> is \<open>JSON.parse(json, f)\<close> for a function \<open>f\<close> that
  returns \<open>undefined\<close> for the key \<open>"__proto__"\<close> and otherwise the value, or what the
  caller's reviver makes of it. A caller's reviver is modelled as a function of the key
  and the value.
\<close>

definition parseJson_reviver ::
  "(string \<Rightarrow> jsval \<Rightarrow> jsval) option \<Rightarrow> string \<Rightarrow> jsval \<Rightarrow> jsval" where
  "parseJson_reviver reviver k v =
     (if k = ''__proto__'' then JUndefined
      else case reviver of None \<Rightarrow> v | Some f \<Rightarrow> f k v)"

text \<open>
  What \<open>JSON.parse\<close> does with a reviver (ECMAScript, InternalizeJSONProperty): the
  properties of an object and the elements of an array are internalized first, in order;
  a property whose result is \<open>undefined\<close> is deleted, an element whose result is
  \<open>undefined\<close> is left as a hole; then the reviver is called on the name and the
  rebuilt value.
\<close>

fun internalize :: "(string \<Rightarrow> jsval \<Rightarrow> jsval) \<Rightarrow> string \<Rightarrow> jsval \<Rightarrow> jsval"
  and internalize_props ::
    "(string \<Rightarrow> jsval \<Rightarrow> jsval) \<Rightarrow> (string \<times> jsval) list \<Rightarrow> (string \<times> jsval) list"
  and internalize_elems :: "(string \<Rightarrow> jsval \<Rightarrow> jsval) \<Rightarrow> nat \<Rightarrow> jsval list \<Rightarrow> jsval list"
where
  "internalize f name (JObj ps) = f name (JObj (internalize_props f ps))"
| "internalize f name (JArr xs) = f name (JArr (internalize_elems f 0 xs))"
| "internalize f name JUndefined = f name JUndefined"
| "internalize f name JNull = f name JNull"
| "internalize f name (JBool b) = f name (JBool b)"
| "internalize f name (JInt i) = f name (JInt i)"
| "internalize f name JNonInteger = f name JNonInteger"
| "internalize f name (JStr s) = f name (JStr s)"
| "internalize f name (JBuffer b) = f name (JBuffer b)"
| "internalize_props f [] = []"
| "internalize_props f (p # ps) =
     (case internalize f (fst p) (snd p) of
        JUndefined \<Rightarrow> internalize_props f ps
      | v \<Rightarrow> (fst p, v) # internalize_props f ps)"
| "internalize_elems f i [] = []"
| "internalize_elems f i (x # xs) =
     internalize f (index_string i) x # internalize_elems f (Suc i) xs"

text \<open>
  \<open>JSON.parse\<close> first reads the text into a value or throws a SyntaxError. That step is
  the engine's; it is a parameter \<open>read\<close> of the model, so that what is proved holds
  for every JSON reader. The root value is internalized under the name \<open>""\<close>.
\<close>

definition parseJson ::
  "(string \<Rightarrow> error + jsval) \<Rightarrow> string \<Rightarrow> (string \<Rightarrow> jsval \<Rightarrow> jsval) option \<Rightarrow> error + jsval" where
  "parseJson read json reviver =
     (case read json of
        Inl e \<Rightarrow> Inl e
      | Inr v \<Rightarrow> Inr (internalize (parseJson_reviver reviver) [] v))"

text \<open>A value has no own property named \<open>__proto__\<close>, at any depth.\<close>

fun no_proto :: "jsval \<Rightarrow> bool"
  and no_proto_props :: "(string \<times> jsval) list \<Rightarrow> bool"
  and no_proto_elems :: "jsval list \<Rightarrow> bool"
where
  "no_proto (JObj ps) = no_proto_props ps"
| "no_proto (JArr xs) = no_proto_elems xs"
| "no_proto JUndefined = True"
| "no_proto JNull = True"
| "no_proto (JBool b) = True"
| "no_proto (JInt i) = True"
| "no_proto JNonInteger = True"
| "no_proto (JStr s) = True"
| "no_proto (JBuffer b) = True"
| "no_proto_props [] = True"
| "no_proto_props (p # ps) = (fst p \<noteq> ''__proto__'' \<and> no_proto (snd p) \<and> no_proto_props ps)"
| "no_proto_elems [] = True"
| "no_proto_elems (x # xs) = (no_proto x \<and> no_proto_elems xs)"

text \<open>
  A reader for one text, \<open>{"a":[{"__proto__":{"x":1},"b":2}],"__proto__":null}\<close>, to run
  the decoder on.
\<close>

definition sample_json :: string where
  "sample_json = ''{\"a\":[{\"__proto__\":{\"x\":1},\"b\":2}],\"__proto__\":null}''"

definition sample_read :: "string \<Rightarrow> error + jsval" where
  "sample_read s =
     (if s = sample_json
      then Inr (JObj [(''a'', JArr [JObj [(''__proto__'', JObj [(''x'', JInt 1)]), (''b'', JInt 2)]]),
                      (''__proto__'', JNull)])
      else Inl SyntaxError)"

section \<open>Requests as the router sees them\<close>

text \<open>
  A header descriptor \<open>{ value, params }\<close>; \<open>params\<close> is \<open>null\<close> or an object with
  string values. The headers of a request map a lower-case field name to the list of its
  descriptors.
\<close>

record HeaderDescriptor =
  desc_value :: string
  desc_params :: "(string \<times> string) list option"

type_synonym headers = "string \<Rightarrow> HeaderDescriptor list option"

record RequestDescriptor =
  req_method :: string
  req_path :: string
  req_headers :: headers
  req_body :: jsval
  req_query :: "(string \<times> jsval) list"

section \<open>Router: configuration, path format, method override (Router.js)\<close>

datatype TrailingSlashPolicy = asis | add | remove

record Router_options =
  trailingSlashPolicy :: TrailingSlashPolicy
  allowsPostMethodOverride :: bool
  parsesQueryAsJson :: bool

text \<open>
  \<open>Router.#formatRequestPath\<close>: \<open>path.replace(/\/*$/, r)\<close> replaces the run of slashes
  at the end of the path, which may be empty, by \<open>r\<close>.
\<close>

definition strip_slashes :: "string \<Rightarrow> string" where
  "strip_slashes p = rev (dropWhile (\<lambda>c. c = CHR ''/'') (rev p))"

definition formatRequestPath :: "Router_options \<Rightarrow> string \<Rightarrow> string" where
  "formatRequestPath opts p =
     (case trailingSlashPolicy opts of
        remove \<Rightarrow> strip_slashes p
      | add \<Rightarrow> strip_slashes p @ ''/''
      | asis \<Rightarrow> p)"

text \<open>
  \<open>Router.#resolveMethodOverride\<close>. A header that is present with an empty descriptor
  list makes \<open>h[0].value\<close> throw a TypeError.
\<close>

definition first_value_upper :: "HeaderDescriptor list \<Rightarrow> error + string" where
  "first_value_upper ds =
     (case ds of [] \<Rightarrow> Inl TypeError | d # _ \<Rightarrow> Inr (toUpperCase (desc_value d)))"

definition resolveMethodOverride ::
  "Router_options \<Rightarrow> string \<Rightarrow> headers option \<Rightarrow> error + string" where
  "resolveMethodOverride opts method hs =
     (if \<not> allowsPostMethodOverride opts \<or> method \<noteq> ''POST'' \<or> hs = None then Inr method
      else
        let http_method = the hs ''x-http-method'';
            http_method_override = the hs ''x-http-method-override'';
            method_override = the hs ''x-method-override''
        in if http_method \<noteq> None then first_value_upper (the http_method)
           else if http_method_override \<noteq> None then first_value_upper (the http_method_override)
           else if method_override \<noteq> None then first_value_upper (the method_override)
           else Inr method)"

text \<open>A request that overrides its method twice, and its options.\<close>

definition override_headers :: headers where
  "override_headers =
     [''x-http-method-override'' \<mapsto> [\<lparr>desc_value = ''put'', desc_params = None\<rparr>],
      ''x-method-override'' \<mapsto> [\<lparr>desc_value = ''DELETE'', desc_params = None\<rparr>]]"

definition override_on :: Router_options where
  "override_on =
     \<lparr>trailingSlashPolicy = remove, allowsPostMethodOverride = True, parsesQueryAsJson = True\<rparr>"

section \<open>Authentication protocols and web entities (Auth.js, \_WebEntity.js)\<close>

text \<open>
  The result of a verification: \<open>{ ok, scheme?, status?, reason? }\<close>. An absent
  (\<open>null\<close> or \<open>undefined\<close>) member is \<open>None\<close>.
\<close>

record VerifyResult =
  vr_ok :: bool
  vr_scheme :: "string option"
  vr_status :: "int option"
  vr_reason :: "(string \<times> jsval) list option"

text \<open>
  An authentication protocol, as a web entity uses it: its \<open>scheme\<close> (a string;
  \<open>undefined\<close> in \<open>AbstractAuthProtocol\<close> itself), what \<open>verify(request)\<close> resolves
  to (\<open>undefined\<close> in \<open>AbstractAuthProtocol\<close>) or the error it rejects with, and what
  \<open>getChallenge()\<close> resolves to at the time of the request.
\<close>

record AuthProtocol =
  scheme :: "string option"
  verify :: "RequestDescriptor \<Rightarrow> error + VerifyResult option"
  getChallenge :: "string option"

text \<open>
  A JavaScript \<open>Map\<close> as the list of its entries in insertion order; \<open>Map.set\<close>
  replaces the value of a key that is present and appends a new key.
\<close>

fun Map_set :: "('k \<times> 'v) list \<Rightarrow> 'k \<Rightarrow> 'v \<Rightarrow> ('k \<times> 'v) list" where
  "Map_set [] k v = [(k, v)]"
| "Map_set (e # es) k v = (if fst e = k then (k, v) # es else e # Map_set es k v)"

text \<open>
  A \<open>WebEntity\<close> holds its path pattern and the map \<open>#auth_protocols\<close>, which the
  constructor fills with \<open>protocol_map.set(protocol.scheme, protocol)\<close> for every given
  protocol. The pattern is taken as given (class \<open>Pattern\<close> is not among the sources).
\<close>

record WebEntity =
  path :: pattern
  auth_protocols :: "(string option \<times> AuthProtocol) list"

definition protocol_map :: "AuthProtocol list \<Rightarrow> (string option \<times> AuthProtocol) list" where
  "protocol_map ps = foldl (\<lambda>m p. Map_set m (scheme p) p) [] ps"

definition new_WebEntity :: "pattern \<Rightarrow> AuthProtocol list \<Rightarrow> WebEntity" where
  "new_WebEntity p ps = \<lparr>path = p, auth_protocols = protocol_map ps\<rparr>"

text \<open>\<open>authRequired\<close>: the iterator over the protocols yields a first protocol.\<close>

definition authRequired :: "WebEntity \<Rightarrow> bool" where
  "authRequired e = (auth_protocols e \<noteq> [])"

text \<open>\<open>getAuthProtocol(scheme)\<close> is \<open>this.#auth_protocols.get(scheme)\<close>.\<close>

definition getAuthProtocol :: "WebEntity \<Rightarrow> string option \<Rightarrow> AuthProtocol option" where
  "getAuthProtocol e s = map_of (auth_protocols e) s"

text \<open>
  \<open>WebEntity.verify\<close>. \<open>authorization.params.scheme\<close> throws a TypeError when
  \<open>params\<close> is \<open>null\<close>.
\<close>

definition ok_true :: VerifyResult where
  "ok_true = \<lparr>vr_ok = True, vr_scheme = None, vr_status = None, vr_reason = None\<rparr>"

definition ok_false :: VerifyResult where
  "ok_false = \<lparr>vr_ok = False, vr_scheme = None, vr_status = None, vr_reason = None\<rparr>"

definition WebEntity_verify :: "WebEntity \<Rightarrow> RequestDescriptor \<Rightarrow> error + VerifyResult option" where
  "WebEntity_verify e request =
     (if \<not> authRequired e then Inr (Some ok_true)
      else
        case (case req_headers request ''authorization'' of
                None \<Rightarrow> None | Some [] \<Rightarrow> None | Some (d # _) \<Rightarrow> Some d) of
          None \<Rightarrow> Inr (Some ok_false)
        | Some authorization \<Rightarrow>
           (case desc_params authorization of
              None \<Rightarrow> Inl TypeError
            | Some params \<Rightarrow>
               (case getAuthProtocol e (map_of params ''scheme'') of
                  None \<Rightarrow> Inr (Some ok_false)
                | Some auth_protocol \<Rightarrow> verify auth_protocol request)))"

text \<open>
  \<open>WebEntity.getChallenge(scheme)\<close> and \<open>getChallenges()\<close>: the challenge of every
  protocol is asked for by the scheme of the protocol, and the ones that are not
  \<open>undefined\<close> are kept, in order.
\<close>

definition WebEntity_getChallenge :: "WebEntity \<Rightarrow> string option \<Rightarrow> string option" where
  "WebEntity_getChallenge e s =
     (case s of
        None \<Rightarrow> None
      | Some _ \<Rightarrow> (case getAuthProtocol e s of None \<Rightarrow> None | Some p \<Rightarrow> getChallenge p))"

definition getChallenges :: "WebEntity \<Rightarrow> string list" where
  "getChallenges e =
     List.map_filter (\<lambda>protocol. WebEntity_getChallenge e (scheme protocol))
       (map snd (auth_protocols e))"

text \<open>\<open>Array.prototype.join\<close> on strings.\<close>

fun join :: "string \<Rightarrow> string list \<Rightarrow> string" where
  "join sep [] = []"
| "join sep [x] = x"
| "join sep (x # y # ys) = x @ sep @ join sep (y # ys)"

section \<open>The credentials parser's last step (RequestParser.js)\<close>

text \<open>
  \<open>_isQuotedString\<close> and \<open>_setDescParam\<close>. A quoted value is decoded with
  \<open>parseJson\<close>; the reader of a JSON string literal is the parameter \<open>unquote\<close>.
\<close>

definition isQuotedString :: "string \<Rightarrow> bool" where
  "isQuotedString s = (length s \<ge> 2 \<and> hd s = CHR 0x22 \<and> last s = CHR 0x22)"

definition setDescParam ::
  "(string \<Rightarrow> error + string) \<Rightarrow> HeaderDescriptor \<Rightarrow> string \<Rightarrow> string \<Rightarrow> error + HeaderDescriptor" where
  "setDescParam unquote desc k v =
     (let params = (case desc_params desc of None \<Rightarrow> [] | Some ps \<Rightarrow> ps)
      in if map_of params k \<noteq> None then Inl SyntaxError
         else if isQuotedString v then
           (case unquote v of
              Inl e \<Rightarrow> Inl e
            | Inr u \<Rightarrow> Inr (desc\<lparr>desc_params := Some (params @ [(k, u)])\<rparr>))
         else Inr (desc\<lparr>desc_params := Some (params @ [(k, v)])\<rparr>))"

text \<open>
  \<open>split_scheme_and_token68\<close>, through which the credentials parser passes every
  descriptor it yields: \<open>desc.value.split(" ")\<close> gives the scheme and, when there is
  one, the token68; the scheme is stored in lower case under the parameter \<open>scheme\<close>.
\<close>

fun split_space :: "string \<Rightarrow> string \<Rightarrow> string list" where
  "split_space acc [] = [rev acc]"
| "split_space acc (c # cs) =
     (if c = CHR '' '' then rev acc # split_space [] cs else split_space (c # acc) cs)"

definition split_scheme_and_token68 ::
  "(string \<Rightarrow> error + string) \<Rightarrow> HeaderDescriptor \<Rightarrow> error + HeaderDescriptor" where
  "split_scheme_and_token68 unquote desc =
     (let parts = split_space [] (desc_value desc);
          scheme = hd parts;
          token68 = (case tl parts of [] \<Rightarrow> None | t # _ \<Rightarrow> Some t)
      in case setDescParam unquote desc ''scheme'' (toLowerCase scheme) of
           Inl e \<Rightarrow> Inl e
         | Inr desc' \<Rightarrow>
            (case token68 of
               None \<Rightarrow> Inr desc'
             | Some t \<Rightarrow> if length t > 0 then setDescParam unquote desc' ''token68'' t else Inr desc'))"

section \<open>The credentials parser (RequestParser.js)\<close>

text \<open>
  \<open>_parseCredentialsListHeader\<close> is a generator over the tokens that
  \<open>_tokenizeCredentialsList\<close> makes of the header value: \<open>"="\<close>, \<open>","\<close>, quoted
  strings, runs of white space, and other tokens. Its variables are the state, the
  descriptor under construction and the buffer \<open>token68_or_param\<close>; the model adds the
  descriptors yielded so far. A step gives the new variables and the error thrown in
  it, if any; what was yielded before a throw stays yielded.
\<close>

datatype State =
    WAIT_VALUE
  | WAIT_SPACE
  | WAIT_TOKEN68_OR_PARAM_NAME
  | WAIT_PADDING_OR_PARAM_KV_SEP
  | WAIT_PADDING_OR_PARAM_VALUE
  | WAIT_PADDING
  | WAIT_PARAM_KV_SEP
  | WAIT_PARAM_VALUE
  | WAIT_VALUE_SEP
  | WAIT_VALUE_OR_PARAM
  | WAIT_SPACE_OR_KV_SEP
  | WAIT_TOKEN68_OR_KV_SEP

record parser =
  state :: State
  desc :: HeaderDescriptor
  token68_or_param :: "string list"
  yielded :: "HeaderDescriptor list"

definition nextDesc :: HeaderDescriptor where
  "nextDesc = \<lparr>desc_value = [], desc_params = None\<rparr>"

text \<open>\<open>is_wsp\<close>: the token starts with a tab or a space.\<close>

definition is_wsp :: "string \<Rightarrow> bool" where
  "is_wsp s = (case s of [] \<Rightarrow> False | c # _ \<Rightarrow> c = CHR 0x09 \<or> c = CHR 0x20)"

definition thrown_in :: "parser \<Rightarrow> error \<Rightarrow> parser \<times> error option" where
  "thrown_in p e = (p, Some e)"

definition goto :: "State \<Rightarrow> parser \<Rightarrow> parser \<times> error option" where
  "goto s p = (p\<lparr>state := s\<rparr>, None)"

text \<open>\<open>yield split_scheme_and_token68(desc); desc = _nextDesc();\<close>\<close>

definition yield_desc :: "(string \<Rightarrow> error + string) \<Rightarrow> parser \<Rightarrow> parser \<times> error option" where
  "yield_desc unquote p =
     (case split_scheme_and_token68 unquote (desc p) of
        Inl e \<Rightarrow> (p, Some e)
      | Inr d \<Rightarrow> (p\<lparr>yielded := yielded p @ [d], desc := nextDesc\<rparr>, None))"

definition and_then ::
  "parser \<times> error option \<Rightarrow> (parser \<Rightarrow> parser \<times> error option) \<Rightarrow> parser \<times> error option" where
  "and_then r f = (case snd r of Some e \<Rightarrow> r | None \<Rightarrow> f (fst r))"

text \<open>
  \<open>desc.value += " "; desc.value += token68_or_param.splice(0, n).join("");\<close> and
  \<open>desc.value = token68_or_param.splice(0, n).join("")\<close>.
\<close>

definition append_buffer :: "parser \<Rightarrow> parser" where
  "append_buffer p =
     p\<lparr>desc := (desc p)\<lparr>desc_value := desc_value (desc p) @ '' '' @ concat (token68_or_param p)\<rparr>,
       token68_or_param := []\<rparr>"

definition append_buffer_if_any :: "parser \<Rightarrow> parser" where
  "append_buffer_if_any p = (if token68_or_param p \<noteq> [] then append_buffer p else p)"

definition buffer_as_value :: "parser \<Rightarrow> parser" where
  "buffer_as_value p =
     p\<lparr>desc := (desc p)\<lparr>desc_value := concat (token68_or_param p)\<rparr>, token68_or_param := []\<rparr>"

definition push :: "string \<Rightarrow> parser \<Rightarrow> parser" where
  "push token p = p\<lparr>token68_or_param := token68_or_param p @ [token]\<rparr>"

text \<open>
  \<open>param_name = token68_or_param.splice(0, n)[0]; _setDescParam(desc, param_name, token)\<close>;
  the name read from an empty buffer is \<open>undefined\<close>, which as a property key is the
  string \<open>undefined\<close>.
\<close>

definition set_param ::
  "(string \<Rightarrow> error + string) \<Rightarrow> string \<Rightarrow> State \<Rightarrow> parser \<Rightarrow> parser \<times> error option" where
  "set_param unquote token s p =
     (let param_name = (case token68_or_param p of [] \<Rightarrow> ''undefined'' | n # _ \<Rightarrow> n)
      in case setDescParam unquote (desc p) param_name token of
           Inl e \<Rightarrow> (p\<lparr>token68_or_param := []\<rparr>, Some e)
         | Inr d \<Rightarrow> (p\<lparr>token68_or_param := [], desc := d, state := s\<rparr>, None))"

text \<open>One turn of the loop, by state, in the order of the tests of the source.\<close>

definition step :: "(string \<Rightarrow> error + string) \<Rightarrow> parser \<Rightarrow> string \<Rightarrow> parser \<times> error option" where
  "step unquote p token =
     (case state p of
        WAIT_VALUE \<Rightarrow>
          if token = ''='' \<or> token = '','' \<or> isQuotedString token then thrown_in p SyntaxError
          else if is_wsp token then (p, None)
          else goto WAIT_SPACE (p\<lparr>desc := (desc p)\<lparr>desc_value := token\<rparr>\<rparr>)
      | WAIT_SPACE \<Rightarrow>
          if is_wsp token then goto WAIT_TOKEN68_OR_PARAM_NAME p
          else if token = '','' then and_then (yield_desc unquote p) (goto WAIT_VALUE)
          else thrown_in p SyntaxError
      | WAIT_TOKEN68_OR_PARAM_NAME \<Rightarrow>
          if token = ''='' \<or> isQuotedString token then thrown_in p SyntaxError
          else if is_wsp token then (p, None)
          else if token = '','' then and_then (yield_desc unquote p) (goto WAIT_VALUE)
          else goto WAIT_PADDING_OR_PARAM_KV_SEP (push token p)
      | WAIT_PADDING_OR_PARAM_KV_SEP \<Rightarrow>
          if token = ''='' then goto WAIT_PADDING_OR_PARAM_VALUE (push token p)
          else if token = '','' then
            and_then (yield_desc unquote (append_buffer_if_any p)) (goto WAIT_VALUE)
          else if is_wsp token then goto WAIT_PARAM_KV_SEP p
          else thrown_in p SyntaxError
      | WAIT_PADDING_OR_PARAM_VALUE \<Rightarrow>
          if token = ''='' then goto WAIT_PADDING (push token p)
          else if token = '','' then
            and_then (yield_desc unquote (append_buffer_if_any p)) (goto WAIT_VALUE)
          else if is_wsp token then goto WAIT_VALUE_SEP (append_buffer_if_any p)
          else set_param unquote token WAIT_VALUE_SEP p
      | WAIT_PADDING \<Rightarrow>
          if token = ''='' then (push token p, None)
          else if token = '','' then and_then (yield_desc unquote (append_buffer p)) (goto WAIT_VALUE)
          else if is_wsp token then goto WAIT_VALUE_SEP (append_buffer p)
          else thrown_in p SyntaxError
      | WAIT_PARAM_KV_SEP \<Rightarrow>
          if token = ''='' then goto WAIT_PARAM_VALUE (push token p)
          else if token = '','' then
            (if desc_params (desc p) \<noteq> None then
               and_then (yield_desc unquote p)
                 (\<lambda>p'. and_then (yield_desc unquote (buffer_as_value p')) (goto WAIT_VALUE))
             else and_then (yield_desc unquote (append_buffer p)) (goto WAIT_VALUE))
          else if is_wsp token then (p, None)
          else thrown_in p SyntaxError
      | WAIT_PARAM_VALUE \<Rightarrow>
          if token = ''='' \<or> token = '','' then thrown_in p SyntaxError
          else if is_wsp token then (p, None)
          else set_param unquote token WAIT_VALUE_SEP p
      | WAIT_VALUE_SEP \<Rightarrow>
          if token = '','' then
            (if desc_params (desc p) \<noteq> None then goto WAIT_VALUE_OR_PARAM p
             else and_then (yield_desc unquote (append_buffer p)) (goto WAIT_VALUE))
          else if is_wsp token then (p, None)
          else thrown_in p SyntaxError
      | WAIT_VALUE_OR_PARAM \<Rightarrow>
          if token = ''='' \<or> token = '','' \<or> isQuotedString token then thrown_in p SyntaxError
          else if is_wsp token then (p, None)
          else goto WAIT_SPACE_OR_KV_SEP (push token p)
      | WAIT_SPACE_OR_KV_SEP \<Rightarrow>
          if token = ''='' then goto WAIT_PARAM_VALUE p
          else if token = '','' then and_then (yield_desc unquote p) (goto WAIT_VALUE)
          else if is_wsp token then goto WAIT_TOKEN68_OR_KV_SEP p
          else thrown_in p SyntaxError
      | WAIT_TOKEN68_OR_KV_SEP \<Rightarrow>
          if token = '','' \<or> isQuotedString token then thrown_in p SyntaxError
          else if token = ''='' then goto WAIT_PARAM_VALUE p
          else if is_wsp token then (p, None)
          else and_then (yield_desc unquote p)
                 (\<lambda>p'. goto WAIT_PADDING_OR_PARAM_KV_SEP (push token (buffer_as_value p'))))"

text \<open>The \<open>switch\<close> after the loop, at the end of the tokens.\<close>

definition finish :: "(string \<Rightarrow> error + string) \<Rightarrow> parser \<Rightarrow> parser \<times> error option" where
  "finish unquote p =
     (case state p of
        WAIT_VALUE \<Rightarrow> thrown_in p SyntaxError
      | WAIT_VALUE_OR_PARAM \<Rightarrow> thrown_in p SyntaxError
      | WAIT_PARAM_VALUE \<Rightarrow> thrown_in p SyntaxError
      | WAIT_SPACE \<Rightarrow> yield_desc unquote p
      | WAIT_TOKEN68_OR_PARAM_NAME \<Rightarrow> yield_desc unquote p
      | WAIT_PADDING_OR_PARAM_KV_SEP \<Rightarrow> yield_desc unquote (append_buffer p)
      | WAIT_PADDING_OR_PARAM_VALUE \<Rightarrow> yield_desc unquote (append_buffer p)
      | WAIT_PADDING \<Rightarrow> yield_desc unquote (append_buffer p)
      | WAIT_PARAM_KV_SEP \<Rightarrow>
          if desc_params (desc p) \<noteq> None then
            and_then (yield_desc unquote p) (\<lambda>p'. yield_desc unquote (buffer_as_value p'))
          else yield_desc unquote (append_buffer p)
      | WAIT_VALUE_SEP \<Rightarrow>
          if desc_params (desc p) \<noteq> None then yield_desc unquote p
          else yield_desc unquote (append_buffer p)
      | WAIT_SPACE_OR_KV_SEP \<Rightarrow>
          and_then (yield_desc unquote p) (\<lambda>p'. yield_desc unquote (buffer_as_value p'))
      | WAIT_TOKEN68_OR_KV_SEP \<Rightarrow>
          and_then (yield_desc unquote p) (\<lambda>p'. yield_desc unquote (buffer_as_value p')))"

fun run :: "(string \<Rightarrow> error + string) \<Rightarrow> parser \<Rightarrow> string list \<Rightarrow> parser \<times> error option" where
  "run unquote p [] = finish unquote p"
| "run unquote p (token # rest) =
     and_then (step unquote p token) (\<lambda>p'. run unquote p' rest)"

definition start :: parser where
  "start = \<lparr>state = WAIT_VALUE, desc = nextDesc, token68_or_param = [], yielded = []\<rparr>"

text \<open>
  \<open>www-authenticate\<close> is parsed by \<open>_parseCredentialsListHeader\<close> and the generator is
  run to its end. \<open>authorization\<close> is parsed by \<open>_parseCredentialsHeader\<close>, which takes
  the first descriptor the generator yields and runs it no further: a throw after the
  first \<open>yield\<close> does not happen.
\<close>

definition parseCredentialsListHeader ::
  "(string \<Rightarrow> error + string) \<Rightarrow> string list \<Rightarrow> error + HeaderDescriptor list" where
  "parseCredentialsListHeader unquote toks =
     (case run unquote start toks of
        (p, Some e) \<Rightarrow> Inl e
      | (p, None) \<Rightarrow> Inr (yielded p))"

definition parseCredentialsHeader ::
  "(string \<Rightarrow> error + string) \<Rightarrow> string list \<Rightarrow> error + HeaderDescriptor list" where
  "parseCredentialsHeader unquote toks =
     (case run unquote start toks of
        (p, e) \<Rightarrow>
          (case yielded p of
             d # _ \<Rightarrow> Inr [d]
           | [] \<Rightarrow> (case e of Some err \<Rightarrow> Inl err | None \<Rightarrow> Inr [])))"

text \<open>
  Tokens as the tokenizers deliver them: a double quote occurs in quoted strings only.
  And what every yielded descriptor turns out to have: a parameter \<open>scheme\<close> in lower
  case.
\<close>

definition proper :: "string \<Rightarrow> bool" where
  "proper t = (isQuotedString t \<or> CHR 0x22 \<notin> set t)"

definition lower_scheme :: "HeaderDescriptor \<Rightarrow> bool" where
  "lower_scheme d =
     (case desc_params d of
        None \<Rightarrow> False
      | Some ps \<Rightarrow> (case map_of ps ''scheme'' of None \<Rightarrow> False | Some s \<Rightarrow> toLowerCase s = s))"

definition quote_free :: "parser \<Rightarrow> bool" where
  "quote_free p =
     (CHR 0x22 \<notin> set (desc_value (desc p)) \<and>
      list_all (\<lambda>t. CHR 0x22 \<notin> set t) (token68_or_param p) \<and>
      list_all lower_scheme (yielded p))"

section \<open>WebApi and WebResource endpoints (WebApi.js, WebResource.js)\<close>

text \<open>
  What a handler's promise settles to. A thrown value is a \<open>WebApiError\<close> (status
  code, description, \<open>retryAfter\<close>), another \<open>Error\<close>, or not an \<open>Error\<close> at all.
  \<open>Result.js\<close> is not among the sources; the router only reads the members \<open>ok\<close>
  and \<open>error\<close> of what \<open>await Result(promise)\<close> gives, so a handler is modelled by
  that object, as a function of its arguments.
\<close>

datatype thrown =
    WebApiError int string "string option"
  | OtherError
  | NotAnError

record awaited =
  res_ok :: jsval
  res_error :: "thrown option"

type_synonym handler = "(string \<times> jsval) list \<Rightarrow> awaited"

text \<open>
  A property of an object: a data property or an accessor property, holding (or getting)
  a function or another value.
\<close>

datatype pvalue = Function handler | NotFunction

datatype property = DataProperty pvalue | AccessorProperty pvalue

text \<open>
  An instance of a subclass of \<open>WebApi\<close>: a web entity with its own properties, with
  the own properties of \<open>Object.getPrototypeOf(webApi)\<close>, the prototype of its class,
  where the class declares its handlers, and with the own properties of the prototypes
  of the classes between its class and \<open>WebApi\<close>, nearest first. \<open>extract_params\<close>
  stands for \<open>this.path.extract(path)?.params\<close> (class \<open>Pattern\<close> is not among the
  sources).
\<close>

record WebApi = WebEntity +
  own_properties :: "string \<Rightarrow> property option"
  class_prototype :: "string \<Rightarrow> property option"
  superclass_prototypes :: "(string \<Rightarrow> property option) list"
  extract_params :: "string \<Rightarrow> (string \<times> string) list option"

text \<open>
  \<open>WebApi.prototype\<close>: the seven handlers of the base class, each of which throws a
  \<open>MethodNotAllowedError\<close> (status 405) with its description.
\<close>

definition not_allowed :: "string \<Rightarrow> handler" where
  "not_allowed description params =
     \<lparr>res_ok = JUndefined, res_error = Some (WebApiError 405 description None)\<rparr>"

definition WebApi_prototype :: "string \<Rightarrow> property option" where
  "WebApi_prototype =
     [''get'' \<mapsto> DataProperty (Function (not_allowed ''\"GET\" method is not allowed'')),
      ''head'' \<mapsto> DataProperty (Function (not_allowed ''\"HEAD\" method is not allowed'')),
      ''post'' \<mapsto> DataProperty (Function (not_allowed ''\"POST\" method is not allowed'')),
      ''put'' \<mapsto> DataProperty (Function (not_allowed ''\"PUT\" method is not allowed.'')),
      ''patch'' \<mapsto> DataProperty (Function (not_allowed ''\"PATCH\" method is not allowed'')),
      ''delete'' \<mapsto> DataProperty (Function (not_allowed ''\"DELETE\" method is not allowed'')),
      ''options'' \<mapsto> DataProperty (Function (not_allowed ''\"OPTIONS\" method is not allowed''))]"

text \<open>
  A \<open>WebResource\<close>: a web entity with \<open>get(path, ...accept)\<close>, given by what
  \<open>await Result(endpoint.get(...))\<close> is: \<open>ok\<close> is \<open>{ contentType, body }\<close> or absent.
\<close>

datatype content = Text string | Bytes string

record resource_awaited =
  rres_ok :: "(string \<times> content) option"
  rres_error :: "thrown option"

record WebResource = WebEntity +
  resource_get :: "string \<Rightarrow> HeaderDescriptor list \<Rightarrow> resource_awaited"

text \<open>What the router's map holds: instances of \<open>WebEntity\<close>.\<close>

datatype endpoint = Resource WebResource | Api WebApi | Entity WebEntity

definition entity_of :: "endpoint \<Rightarrow> WebEntity" where
  "entity_of ep =
     (case ep of
        Resource r \<Rightarrow> WebEntity.truncate r
      | Api a \<Rightarrow> WebEntity.truncate a
      | Entity e \<Rightarrow> e)"

definition HttpMethods :: "string list" where
  "HttpMethods = [''GET'', ''POST'', ''PUT'', ''DELETE'', ''HEAD'', ''OPTIONS'', ''PATCH'']"

text \<open>
  \<open>WebApi.supports(webApi, method)\<close>: the own property descriptor of the prototype
  under the lower-case method name must be there and its \<open>value\<close> must be a function
  (the \<open>value\<close> of an accessor descriptor is \<open>undefined\<close>).
\<close>

definition supports :: "endpoint \<Rightarrow> string \<Rightarrow> bool" where
  "supports webApi method =
     (case webApi of
        Api a \<Rightarrow>
          if toUpperCase method \<notin> set HttpMethods then False
          else
            let method_lc = toLowerCase method;
                desc = class_prototype a method_lc
            in (case desc of Some (DataProperty (Function f)) \<Rightarrow> True | _ \<Rightarrow> False)
      | _ \<Rightarrow> False)"

text \<open>
  The names under which class \<open>WebApi\<close> declares its seven handlers, and whether the
  class of an instance declares a method of its own under the name of the handler.
\<close>

fun handler_name :: "string \<Rightarrow> string" where
  "handler_name m =
     (if m = ''GET'' then ''get'' else if m = ''HEAD'' then ''head''
      else if m = ''POST'' then ''post'' else if m = ''PUT'' then ''put''
      else if m = ''PATCH'' then ''patch'' else if m = ''DELETE'' then ''delete''
      else if m = ''OPTIONS'' then ''options'' else [])"

definition overridden :: "WebApi \<Rightarrow> string \<Rightarrow> bool" where
  "overridden a m =
     (case class_prototype a (handler_name m) of
        Some (DataProperty (Function f)) \<Rightarrow> True
      | _ \<Rightarrow> False)"

text \<open>
  \<open>endpoint[name]\<close>: the first property of that name among the own properties of
  the instance, the prototype of its class, the prototypes of its superclasses and
  \<open>WebApi.prototype\<close> (getters are run).
\<close>

fun first_property :: "(string \<Rightarrow> property option) list \<Rightarrow> string \<Rightarrow> property option" where
  "first_property [] name = None"
| "first_property (proto # protos) name =
     (case proto name of Some p \<Rightarrow> Some p | None \<Rightarrow> first_property protos name)"

definition get_property :: "WebApi \<Rightarrow> string \<Rightarrow> pvalue option" where
  "get_property a name =
     (case first_property
             (own_properties a # class_prototype a # superclass_prototypes a @ [WebApi_prototype])
             name of
        None \<Rightarrow> None
      | Some (DataProperty v) \<Rightarrow> Some v
      | Some (AccessorProperty v) \<Rightarrow> Some v)"

section \<open>RequestParser.parse (RequestParser.js)\<close>

text \<open>
  What \<open>Number(s)\<close> can be, as far as \<open>parse\<close> tells numbers apart: an integer, a
  number that is not an integer and is positive (\<open>+Infinity\<close> included) or negative, or
  \<open>NaN\<close>.
\<close>

datatype jsnumber = Integer int | PositiveNonInteger | NegativeNonInteger | NaN

definition ge_zero :: "jsnumber \<Rightarrow> bool" where
  "ge_zero x = (case x of Integer i \<Rightarrow> i \<ge> 0 | PositiveNonInteger \<Rightarrow> True | _ \<Rightarrow> False)"

text \<open>
  What \<open>parse\<close> and \<open>route\<close> call and the model does not look into: functions of the
  JavaScript engine and of Node, the class \<open>Pattern\<close>, which is not among the sources,
  and \<open>parseHeader\<close> and \<open>parseFormData\<close> of \<open>RequestParser\<close>. They are parameters:
  what is proved below holds whatever they compute.
  \<^item> \<open>parseHeader line\<close>: the field name and the descriptors of a header line;
  \<^item> \<open>parseFormData body boundary\<close>: the object of a multipart body;
  \<^item> \<open>URLSearchParams s\<close>: the entries of \<open>Object.fromEntries(new URLSearchParams(s))\<close>;
  \<^item> \<open>Number s\<close>;
  \<^item> \<open>TextDecoder label bytes\<close>: \<open>new TextDecoder(label, {fatal: true}).decode(bytes)\<close>;
  \<^item> \<open>JSON_read text\<close>: \<open>JSON.parse\<close> before the reviver runs;
  \<^item> \<open>JSON_stringify v\<close>: the text of \<open>JSON.stringify(v)\<close> inside a template string;
  \<^item> \<open>decodeURIComponent s\<close>;
  \<^item> \<open>path_pattern path\<close>: \<open>new Pattern({ pattern: Pattern.escape(path) })\<close>.
\<close>

record engine =
  parseHeader :: "string \<Rightarrow> error + (string \<times> HeaderDescriptor list)"
  parseFormData :: "string \<Rightarrow> string option \<Rightarrow> error + jsval"
  URLSearchParams :: "string \<Rightarrow> (string \<times> string) list"
  Number :: "string \<Rightarrow> jsnumber"
  TextDecoder :: "string \<Rightarrow> string \<Rightarrow> error + string"
  JSON_read :: "string \<Rightarrow> error + jsval"
  JSON_stringify :: "jsval \<Rightarrow> string"
  decodeURIComponent :: "string \<Rightarrow> error + string"
  path_pattern :: "string \<Rightarrow> error + pattern"

text \<open>
  An \<open>http.IncomingMessage\<close>: \<open>readable\<close>, \<open>method\<close>, \<open>url\<close>, the object
  \<open>headers\<close> (a field is a string or an array of strings), the chunks of the body as
  the \<open>data\<close> events deliver them, as bytes, and the error of the \<open>error\<close> event when
  the stream ends with one instead of \<open>end\<close>.
\<close>

datatype raw_header = Single string | Multi "string list"

record IncomingMessage =
  readable :: bool
  im_method :: string
  url :: string
  im_headers :: "(string \<times> raw_header) list"
  chunks :: "string list"
  stream_error :: "error option"

record RawRequestDescriptor =
  raw_method :: string
  raw_path :: string
  raw_headers :: headers
  raw_query :: "(string \<times> string) list"
  raw_body :: jsval

text \<open>The loop over \<open>request.headers\<close>; the first header that does not parse throws.\<close>

definition header_line :: "string \<Rightarrow> raw_header \<Rightarrow> string" where
  "header_line name h =
     name @ '': '' @ (case h of Single s \<Rightarrow> s | Multi ss \<Rightarrow> join '', '' ss)"

fun parse_headers :: "engine \<Rightarrow> (string \<times> raw_header) list \<Rightarrow> headers \<Rightarrow> error + headers" where
  "parse_headers E [] acc = Inr acc"
| "parse_headers E (nh # rest) acc =
     (case parseHeader E (header_line (fst nh) (snd nh)) of
        Inl e \<Rightarrow> Inl e
      | Inr parsed \<Rightarrow>
          parse_headers E rest
            (acc(fst nh := (if fst parsed = fst nh then Some (snd parsed) else None))))"

text \<open>\<open>url.indexOf("?")\<close> splits the URL into the path and the query string.\<close>

definition split_url :: "string \<Rightarrow> string \<times> string" where
  "split_url u =
     (if CHR ''?'' \<in> set u
      then (takeWhile (\<lambda>c. c \<noteq> CHR ''?'') u, tl (dropWhile (\<lambda>c. c \<noteq> CHR ''?'') u))
      else (u, []))"

text \<open>
  \<open>Number(request.headers["content-length"] ?? -1)\<close>; an array is converted to a string
  first, its members joined by commas.
\<close>

definition declared_content_length :: "engine \<Rightarrow> IncomingMessage \<Rightarrow> jsnumber" where
  "declared_content_length E request =
     (case map_of (im_headers request) ''content-length'' of
        None \<Rightarrow> Integer (- 1)
      | Some (Single s) \<Rightarrow> Number E s
      | Some (Multi ss) \<Rightarrow> Number E (join '','' ss))"

text \<open>
  The \<open>data\<close> handler adds up the byte lengths of the chunks, and only when the declared
  length is not negative.
\<close>

definition actual_content_length :: "engine \<Rightarrow> IncomingMessage \<Rightarrow> int" where
  "actual_content_length E request =
     (if ge_zero (declared_content_length E request)
      then int (sum_list (map length (chunks request)))
      else 0)"

text \<open>
  The rest of the \<open>end\<close> handler, after the length check: the body is decoded as the
  first \<open>Content-Type\<close> descriptor says. (With an empty descriptor list, which
  \<open>parseHeader\<close> never yields, \<open>content_type.value\<close> throws.)
\<close>

definition decode_text_body :: "engine \<Rightarrow> string option \<Rightarrow> string \<Rightarrow> error + jsval" where
  "decode_text_body E charset body =
     (case TextDecoder E (case charset of Some c \<Rightarrow> c | None \<Rightarrow> ''utf-8'') body of
        Inr s \<Rightarrow> Inr (JStr s)
      | Inl w \<Rightarrow>
          if charset = None \<or> toLowerCase (the charset) = ''utf-8'' then Inl w
          else (case TextDecoder E ''utf-8'' body of Inr s \<Rightarrow> Inr (JStr s) | Inl e \<Rightarrow> Inl e))"

definition starts_with :: "string \<Rightarrow> string \<Rightarrow> bool" where
  "starts_with s p = (take (length p) s = p)"

definition decode_body :: "engine \<Rightarrow> headers \<Rightarrow> string \<Rightarrow> error + jsval" where
  "decode_body E hs body =
     (case (case hs ''content-type'' of
              None \<Rightarrow> [\<lparr>desc_value = ''application/octet-stream'', desc_params = None\<rparr>]
            | Some ds \<Rightarrow> ds) of
        [] \<Rightarrow> Inl TypeError
      | content_type # _ \<Rightarrow>
          if desc_value content_type = ''multipart/form-data'' then
            (case desc_params content_type of
               None \<Rightarrow> Inl TypeError
             | Some ps \<Rightarrow> parseFormData E body (map_of ps ''boundary''))
          else if desc_value content_type = ''application/x-www-form-urlencoded'' then
            Inr (JObj (map (\<lambda>kv. (fst kv, JStr (snd kv))) (URLSearchParams E body)))
          else if desc_value content_type = ''application/json'' then
            parseJson (JSON_read E) body None
          else if starts_with (desc_value content_type) ''text/'' then
            decode_text_body E
              (case desc_params content_type of None \<Rightarrow> None | Some ps \<Rightarrow> map_of ps ''charset'')
              body
          else Inr (JBuffer body))"

definition build_result :: "engine \<Rightarrow> IncomingMessage \<Rightarrow> headers \<Rightarrow> error + RawRequestDescriptor" where
  "build_result E request hs =
     (case decode_body E hs (concat (chunks request)) of
        Inl e \<Rightarrow> Inl e
      | Inr b \<Rightarrow>
          Inr \<lparr>raw_method = im_method request,
               raw_path = fst (split_url (url request)),
               raw_headers = hs,
               raw_query = URLSearchParams E (snd (split_url (url request))),
               raw_body = b\<rparr>)"

text \<open>
  \<open>RequestParser.parse\<close>: the promise it returns resolves to a descriptor (\<open>Inr\<close>) or is
  rejected with an error (\<open>Inl\<close>): by a throw before the stream is read, by the
  \<open>error\<close> event, by the length check of the \<open>end\<close> handler, or by the decoding of the
  body.
\<close>

definition RequestParser_parse :: "engine \<Rightarrow> IncomingMessage \<Rightarrow> error + RawRequestDescriptor" where
  "RequestParser_parse E request =
     (if \<not> readable request then Inl TypeError
      else
        case parse_headers E (im_headers request) (\<lambda>_. None) of
          Inl e \<Rightarrow> Inl e
        | Inr hs \<Rightarrow>
           (let content_length = declared_content_length E request;
                actual = actual_content_length E request
            in case stream_error request of
                 Some e \<Rightarrow> Inl e
               | None \<Rightarrow>
                   if ge_zero content_length \<and> content_length \<noteq> Integer actual
                   then Inl RangeError
                   else build_result E request hs))"

section \<open>Router.route (Router.js)\<close>

subsection \<open>Responses\<close>

text \<open>
  What \<open>route\<close> does to the response object: one call of \<open>writeHead\<close> (status code,
  status message when given, headers), at most one call of \<open>write\<close>, then \<open>end\<close>.
  Bodies are kept as what is encoded, and \<open>Buffer.byteLength\<close> of a body as such. The
  record also lists the handler calls made on the way and the \<open>console.warn\<close> calls of
  \<open>route\<close> itself.
\<close>

datatype payload = JsonText jsval | Content content

datatype header_value = HVal jsval | HByteLength payload

datatype warning = QueryNotJson string string | BothFlags | UnusualStatus int

record response =
  statusCode :: int
  statusMessage :: "string option"
  headers_sent :: "(string \<times> header_value) list"
  written :: "payload option"
  handler_calls :: "(string \<times> (string \<times> jsval) list) list"
  warnings :: "warning list"

definition json_headers :: "payload \<Rightarrow> (string \<times> header_value) list" where
  "json_headers body_data =
     [(''content-length'', HByteLength body_data),
      (''content-type'', HVal (JStr ''application/json''))]"

definition error_object :: "string option \<Rightarrow> int \<Rightarrow> payload" where
  "error_object message status_code =
     JsonText (JObj [(''error'',
       JObj ((case message of None \<Rightarrow> [] | Some m \<Rightarrow> [(''message'', JStr m)]) @
             [(''status'', JInt status_code)]))])"

text \<open>The branch for a request that does not parse.\<close>

definition bad_request :: response where
  "bad_request =
     \<lparr>statusCode = 400, statusMessage = Some ''Bad Request'',
      headers_sent = json_headers (error_object (Some ''Bad Request'') 400),
      written = Some (error_object (Some ''Bad Request'') 400),
      handler_calls = [], warnings = []\<rparr>"

text \<open>The branches for a missing endpoint (404) and for a method that is not allowed (405).\<close>

definition refusal :: "int \<Rightarrow> string \<Rightarrow> string \<Rightarrow> warning list \<Rightarrow> response" where
  "refusal status_code message method ws =
     (if method = ''HEAD'' then
        \<lparr>statusCode = status_code, statusMessage = Some message, headers_sent = [],
         written = None, handler_calls = [], warnings = ws\<rparr>
      else
        \<lparr>statusCode = status_code, statusMessage = Some message,
         headers_sent = json_headers (error_object (Some message) status_code),
         written = Some (error_object (Some message) status_code),
         handler_calls = [], warnings = ws\<rparr>)"

subsection \<open>Objects\<close>

text \<open>
  The own enumerable properties of a value, as \<open>for ... in\<close> with \<open>hasOwnProperty\<close>
  and a rest pattern see them, and the reading of a property (own properties only).
\<close>

fun indexed :: "nat \<Rightarrow> jsval list \<Rightarrow> (string \<times> jsval) list" where
  "indexed i [] = []"
| "indexed i (x # xs) = (index_string i, x) # indexed (Suc i) xs"

definition props_of :: "jsval \<Rightarrow> (string \<times> jsval) list" where
  "props_of v =
     (case v of
        JObj ps \<Rightarrow> ps
      | JArr xs \<Rightarrow> indexed 0 xs
      | JStr s \<Rightarrow> indexed 0 (map (\<lambda>c. JStr [c]) s)
      | _ \<Rightarrow> [])"

definition read_prop :: "jsval \<Rightarrow> string \<Rightarrow> jsval" where
  "read_prop v name = (case map_of (props_of v) name of None \<Rightarrow> JUndefined | Some x \<Rightarrow> x)"

text \<open>\<open>merge(target, source)\<close> of \<open>Copyutil.js\<close>, on the properties of the source.\<close>

fun merge :: "(string \<times> jsval) list \<Rightarrow> (string \<times> jsval) list \<Rightarrow> (string \<times> jsval) list" where
  "merge target [] = target"
| "merge target (kv # source) =
     (if fst kv = ''__proto__'' then merge target source
      else merge (Map_set target (fst kv) (snd kv)) source)"

subsection \<open>The query\<close>

text \<open>
  With \<open>parsesQueryAsJson\<close> every value of the query is parsed with \<open>parseJson\<close>; a value
  that does not parse is kept as the string and a warning is printed. (An assignment to
  \<open>q["__proto__"]\<close> creates no own property.)
\<close>

fun query_as_json ::
  "engine \<Rightarrow> (string \<times> string) list \<Rightarrow> (string \<times> jsval) list \<times> warning list" where
  "query_as_json E [] = ([], [])"
| "query_as_json E (kv # rq) =
     (let rest = query_as_json E rq;
          parsed = parseJson (JSON_read E) (snd kv) None;
          v = (case parsed of Inl e \<Rightarrow> JStr (snd kv) | Inr j \<Rightarrow> j);
          w = (case parsed of Inl e \<Rightarrow> [QueryNotJson (fst kv) (snd kv)] | Inr j \<Rightarrow> [])
      in (if fst kv = ''__proto__'' then fst rest else (fst kv, v) # fst rest, w @ snd rest))"

definition parse_query :: "engine \<Rightarrow> Router_options \<Rightarrow> (string \<times> string) list \<Rightarrow>
    (string \<times> jsval) list \<times> warning list" where
  "parse_query E opts raw =
     (if parsesQueryAsJson opts then query_as_json E raw
      else (map (\<lambda>kv. (fst kv, JStr (snd kv))) raw, []))"

subsection \<open>A failed verification\<close>

text \<open>
  A reason that is already a quoted string is made well-formed: in its inside, a quote
  after an even number of backslashes gets a backslash
  (\<open>replaceAll(/\\*\"/g, (s) => (s.length % 2 === 1 ? "\\" + s : s))\<close>). The first
  argument counts the backslashes just read.
\<close>

fun wellformed :: "nat \<Rightarrow> string \<Rightarrow> string" where
  "wellformed n [] = []"
| "wellformed n (c # cs) =
     (if c = CHR 0x5C then c # wellformed (Suc n) cs
      else if c = CHR 0x22 then (if even n then [CHR 0x5C, c] else [c]) @ wellformed 0 cs
      else c # wellformed 0 cs)"

definition reason_param :: "engine \<Rightarrow> string \<times> jsval \<Rightarrow> string" where
  "reason_param E kv =
     (case snd kv of
        JStr v \<Rightarrow>
          if isQuotedString v
          then fst kv @ [CHR ''='', CHR 0x22] @ wellformed 0 (butlast (tl v)) @ [CHR 0x22]
          else fst kv @ ''='' @ JSON_stringify E (snd kv)
      | _ \<Rightarrow> fst kv @ ''='' @ JSON_stringify E (snd kv))"

text \<open>
  The value of the \<open>www-authenticate\<close> header; \<open>None\<close> is \<open>undefined\<close>. Without a
  failed scheme it is the join of the challenges of the entity; with one it is the
  challenge of that scheme, followed by the reason when there is one (\<open>undefined\<close>
  becomes the text \<open>undefined\<close> when a string is appended to it).
\<close>

definition www_authenticate :: "engine \<Rightarrow> WebEntity \<Rightarrow> VerifyResult \<Rightarrow> string option" where
  "www_authenticate E e verification_result =
     (case vr_scheme verification_result of
        None \<Rightarrow> Some (join '', '' (getChallenges e))
      | Some failed_scheme \<Rightarrow>
          let www_authenticate_value = WebEntity_getChallenge e (Some failed_scheme)
          in (case vr_reason verification_result of
                None \<Rightarrow> www_authenticate_value
              | Some reason \<Rightarrow>
                  Some ((case www_authenticate_value of None \<Rightarrow> ''undefined'' | Some c \<Rightarrow> c) @
                        (if www_authenticate_value = Some failed_scheme then '' '' else '', '') @
                        join '', '' (map (reason_param E) reason))))"

definition unauthorized_status :: "VerifyResult \<Rightarrow> int" where
  "unauthorized_status verification_result =
     (if vr_scheme verification_result \<noteq> None
      then (case vr_status verification_result of None \<Rightarrow> 401 | Some s \<Rightarrow> s)
      else 401)"

definition unauthorized ::
  "engine \<Rightarrow> WebEntity \<Rightarrow> VerifyResult \<Rightarrow> string \<Rightarrow> warning list \<Rightarrow> response" where
  "unauthorized E e verification_result method ws =
     (let status_code = unauthorized_status verification_result;
          message = (if status_code = 401 then ''Unauthorized''
                     else if status_code = 403 then ''Forbidden''
                     else ''Bad Request'');
          challenge = (''www-authenticate'',
                       HVal (case www_authenticate E e verification_result of
                               None \<Rightarrow> JUndefined | Some v \<Rightarrow> JStr v))
      in if method \<noteq> ''HEAD'' then
           \<lparr>statusCode = status_code, statusMessage = Some message,
            headers_sent = challenge # json_headers (error_object None status_code),
            written = Some (error_object None status_code),
            handler_calls = [], warnings = ws\<rparr>
         else
           \<lparr>statusCode = status_code, statusMessage = Some message,
            headers_sent = [challenge], written = None,
            handler_calls = [], warnings = ws\<rparr>)"

subsection \<open>A handler that failed\<close>

text \<open>
  An \<open>Error\<close> that is no \<open>WebApiError\<close> is wrapped into an
  \<open>InternalServerError\<close>: status 500, description \<open>Something went wrong\<close>, no
  \<open>retryAfter\<close>. \<open>writeHead\<close> is called without a status message.
\<close>

definition handler_failed ::
  "int \<Rightarrow> string \<Rightarrow> string option \<Rightarrow> (string \<times> (string \<times> jsval) list) list \<Rightarrow>
   warning list \<Rightarrow> response" where
  "handler_failed status_code description retry_after calls ws =
     \<lparr>statusCode = status_code, statusMessage = None,
      headers_sent = json_headers (error_object (Some description) status_code) @
        (case retry_after of None \<Rightarrow> [] | Some r \<Rightarrow> [(''retry-after'', HVal (JStr r))]),
      written = Some (error_object (Some description) status_code),
      handler_calls = calls, warnings = ws\<rparr>"

definition error_response ::
  "thrown \<Rightarrow> (string \<times> (string \<times> jsval) list) list \<Rightarrow> warning list \<Rightarrow> response" where
  "error_response err calls ws =
     (case err of
        WebApiError status_code description retry_after \<Rightarrow>
          handler_failed status_code description retry_after calls ws
      | _ \<Rightarrow> handler_failed 500 ''Something went wrong'' None calls ws)"

subsection \<open>The branch of a WebResource\<close>

text \<open>
  \<open>endpoint.get(request_desc.path, ...request_desc.headers["accept"])\<close>: without an
  \<open>accept\<close> header the spread of \<open>undefined\<close> throws a TypeError.
\<close>

definition route_resource ::
  "WebResource \<Rightarrow> RequestDescriptor \<Rightarrow> warning list \<Rightarrow> error + response" where
  "route_resource r request_desc ws =
     (case req_headers request_desc ''accept'' of
        None \<Rightarrow> Inl TypeError
      | Some accept \<Rightarrow>
          let result = resource_get r (req_path request_desc) accept;
              ok = (case rres_ok result of None \<Rightarrow> (''text/plain'', Text []) | Some x \<Rightarrow> x)
          in (case rres_error result of
                Some (WebApiError s d ra) \<Rightarrow> Inr (error_response (WebApiError s d ra) [] ws)
              | Some OtherError \<Rightarrow> Inr (error_response OtherError [] ws)
              | _ \<Rightarrow>
                  Inr \<lparr>statusCode = 200, statusMessage = None,
                       headers_sent = [(''content-length'', HByteLength (Content (snd ok))),
                                       (''content-type'', HVal (JStr (fst ok)))],
                       written = Some (Content (snd ok)),
                       handler_calls = [], warnings = ws\<rparr>))"

subsection \<open>The branch of a WebApi\<close>

text \<open>
  The parameters of the handler: the query, then the body unless the method is
  \<open>GET\<close>, \<open>HEAD\<close> or \<open>DELETE\<close> (a string or a \<open>Buffer\<close> under the name \<open>body\<close>),
  then the parameters extracted from the path, each decoded with
  \<open>decodeURIComponent\<close>, which may throw.
\<close>

fun decode_all :: "engine \<Rightarrow> (string \<times> string) list \<Rightarrow> error + (string \<times> jsval) list" where
  "decode_all E [] = Inr []"
| "decode_all E (kv # rest) =
     (case decodeURIComponent E (snd kv) of
        Inl e \<Rightarrow> Inl e
      | Inr d \<Rightarrow>
         (case decode_all E rest of
            Inl e \<Rightarrow> Inl e
          | Inr ds \<Rightarrow> Inr ((fst kv, JStr d) # ds)))"

definition methods_should_ignore_content :: "string list" where
  "methods_should_ignore_content = [''GET'', ''HEAD'', ''DELETE'']"

definition handler_params ::
  "engine \<Rightarrow> WebApi \<Rightarrow> string \<Rightarrow> RequestDescriptor \<Rightarrow> error + (string \<times> jsval) list" where
  "handler_params E a method request_desc =
     (let params = merge [] (req_query request_desc);
          body = req_body request_desc;
          params' =
            (if method \<notin> set methods_should_ignore_content
             then merge params
                    (case body of
                       JStr s \<Rightarrow> [(''body'', body)]
                     | JBuffer b \<Rightarrow> [(''body'', body)]
                     | _ \<Rightarrow> props_of body)
             else params)
      in case extract_params a (req_path request_desc) of
           None \<Rightarrow> Inr params'
         | Some extracted \<Rightarrow>
            (case decode_all E extracted of
               Inl e \<Rightarrow> Inl e
             | Inr decoded \<Rightarrow> Inr (merge params' decoded)))"

text \<open>\<open>Number.isInteger(x) && 200 <= x && x <= 599\<close>.\<close>

definition valid_status :: "jsval \<Rightarrow> bool" where
  "valid_status x = (case x of JInt i \<Rightarrow> 200 \<le> i \<and> i \<le> 599 | _ \<Rightarrow> False)"

definition is_boolean :: "jsval \<Rightarrow> bool" where
  "is_boolean x = (case x of JBool b \<Rightarrow> True | _ \<Rightarrow> False)"

definition is_true :: "jsval \<Rightarrow> bool" where
  "is_true x = (case x of JBool b \<Rightarrow> b | _ \<Rightarrow> False)"

definition int_of :: "jsval \<Rightarrow> int" where
  "int_of x = (case x of JInt i \<Rightarrow> i | _ \<Rightarrow> 0)"

text \<open>
  The status of the answer to \<open>PUT\<close> (\<open>flag\<close> is \<open>created\<close>, \<open>code\<close> is 201) and to
  \<open>DELETE\<close> (\<open>accepted\<close>, 202), as the conditional expression of the source has it.
\<close>

definition flagged_status :: "jsval \<Rightarrow> jsval \<Rightarrow> jsval \<Rightarrow> int \<Rightarrow> int" where
  "flagged_status status_code_override no_content flag code =
     (if is_boolean no_content \<and> is_boolean flag then 200
      else if is_boolean no_content \<and> is_true no_content then 204
      else if is_boolean flag \<and> is_true flag then code
      else if valid_status status_code_override then int_of status_code_override
      else 200)"

definition flagged_warnings :: "jsval \<Rightarrow> jsval \<Rightarrow> int \<Rightarrow> int \<Rightarrow> warning list" where
  "flagged_warnings no_content flag code status_code =
     (if is_boolean no_content \<and> is_boolean flag then [BothFlags]
      else if \<not> (status_code = 200 \<or> status_code = code \<or> status_code = 204)
      then [UnusualStatus status_code]
      else [])"

definition without :: "string list \<Rightarrow> (string \<times> jsval) list \<Rightarrow> (string \<times> jsval) list" where
  "without names ps = filter (\<lambda>kv. fst kv \<notin> set names) ps"

definition as_headers :: "(string \<times> jsval) list \<Rightarrow> (string \<times> header_value) list" where
  "as_headers ps = map (\<lambda>kv. (fst kv, HVal (snd kv))) ps"

text \<open>A body of JSON, or none at all when the status is 204.\<close>

definition json_or_empty ::
  "int \<Rightarrow> (string \<times> jsval) list \<Rightarrow> (string \<times> (string \<times> jsval) list) list \<Rightarrow>
   warning list \<Rightarrow> response" where
  "json_or_empty status_code response_body calls ws =
     (if status_code = 204 then
        \<lparr>statusCode = status_code, statusMessage = None, headers_sent = [], written = None,
         handler_calls = calls, warnings = ws\<rparr>
      else
        \<lparr>statusCode = status_code, statusMessage = None,
         headers_sent = json_headers (JsonText (JObj response_body)),
         written = Some (JsonText (JObj response_body)),
         handler_calls = calls, warnings = ws\<rparr>)"

text \<open>
  The answer to a handler that has settled. \<open>ok\<close> is \<open>result.ok ?? {}\<close>. For \<open>HEAD\<close>
  the value goes to \<open>writeHead\<close> as it is: Node takes a string for the status message
  and an object for the headers.
\<close>

definition respond ::
  "string \<Rightarrow> awaited \<Rightarrow> (string \<times> (string \<times> jsval) list) list \<Rightarrow> warning list \<Rightarrow> response" where
  "respond method result calls ws =
     (let ok = (case res_ok result of JUndefined \<Rightarrow> JObj [] | JNull \<Rightarrow> JObj [] | v \<Rightarrow> v)
      in case res_error result of
           Some (WebApiError s d ra) \<Rightarrow> error_response (WebApiError s d ra) calls ws
         | Some OtherError \<Rightarrow> error_response OtherError calls ws
         | _ \<Rightarrow>
            if method = ''HEAD'' then
              \<lparr>statusCode = 204,
               statusMessage = (case ok of JStr s \<Rightarrow> Some s | _ \<Rightarrow> None),
               headers_sent = (case ok of JStr s \<Rightarrow> [] | _ \<Rightarrow> as_headers (props_of ok)),
               written = None, handler_calls = calls, warnings = ws\<rparr>
            else if method = ''PUT'' then
              (let status_code_override = read_prop ok ''statusCode'';
                   no_content = read_prop ok ''noContent'';
                   created = read_prop ok ''created'';
                   response_headers = without [''statusCode'', ''noContent'', ''created''] (props_of ok);
                   status_code = flagged_status status_code_override no_content created 201
               in \<lparr>statusCode = status_code, statusMessage = None,
                   headers_sent = as_headers response_headers, written = None,
                   handler_calls = calls,
                   warnings = ws @ flagged_warnings no_content created 201 status_code\<rparr>)
            else if method = ''DELETE'' then
              (let status_code_override = read_prop ok ''statusCode'';
                   no_content = read_prop ok ''noContent'';
                   accepted = read_prop ok ''accepted'';
                   response_body = without [''statusCode'', ''noContent'', ''accepted''] (props_of ok);
                   status_code = flagged_status status_code_override no_content accepted 202
               in json_or_empty status_code response_body calls
                    (ws @ flagged_warnings no_content accepted 202 status_code))
            else
              (let status_code_override = read_prop ok ''statusCode'';
                   response_body = without [''statusCode''] (props_of ok);
                   status_code = (if valid_status status_code_override
                                  then int_of status_code_override else 200)
               in json_or_empty status_code response_body calls ws))"

text \<open>
  \<open>endpoint[method_lc](params)\<close>: calling what is not a function throws a TypeError.
\<close>

definition route_api ::
  "engine \<Rightarrow> WebApi \<Rightarrow> string \<Rightarrow> RequestDescriptor \<Rightarrow> warning list \<Rightarrow> error + response" where
  "route_api E a method request_desc ws =
     (let method_lc = toLowerCase method
      in case handler_params E a method request_desc of
           Inl e \<Rightarrow> Inl e
         | Inr params \<Rightarrow>
            (case get_property a method_lc of
               Some (Function f) \<Rightarrow> Inr (respond method (f params) [(method_lc, params)] ws)
             | _ \<Rightarrow> Inl TypeError))"

subsection \<open>route\<close>

text \<open>
  \<open>Router.route\<close>, for the options of the router and its map of entities. The result
  is the response (\<open>Inr\<close>), or the error that escapes \<open>route\<close> without one (\<open>Inl\<close>).
\<close>

definition is_Resource :: "endpoint \<Rightarrow> bool" where
  "is_Resource ep = (case ep of Resource r \<Rightarrow> True | _ \<Rightarrow> False)"

definition is_Api :: "endpoint \<Rightarrow> bool" where
  "is_Api ep = (case ep of Api a \<Rightarrow> True | _ \<Rightarrow> False)"

definition dispatch ::
  "engine \<Rightarrow> endpoint \<Rightarrow> string \<Rightarrow> RequestDescriptor \<Rightarrow> warning list \<Rightarrow> error + response" where
  "dispatch E endpoint method request_desc ws =
     (if \<not> (is_Resource endpoint \<and> method = ''GET'') \<and>
         \<not> (is_Api endpoint \<and> supports endpoint method)
      then Inr (refusal 405 (method @ '' is not allowed'') method ws)
      else
        case WebEntity_verify (entity_of endpoint) request_desc of
          Inl e \<Rightarrow> Inl e
        | Inr v \<Rightarrow>
           (let verification_result = (case v of None \<Rightarrow> ok_false | Some r \<Rightarrow> r)
            in if \<not> vr_ok verification_result
               then Inr (unauthorized E (entity_of endpoint) verification_result method ws)
               else (case endpoint of
                       Resource r \<Rightarrow> route_resource r request_desc ws
                     | Api a \<Rightarrow> route_api E a method request_desc ws
                     | Entity e \<Rightarrow> Inl TypeError)))"

definition route ::
  "engine \<Rightarrow> Router_options \<Rightarrow> endpoint node \<Rightarrow> IncomingMessage \<Rightarrow> error + response" where
  "route E opts web_entity_map request =
     (case RequestParser_parse E request of
        Inl error \<Rightarrow> Inr bad_request
      | Inr raw_request_desc \<Rightarrow>
          let path = formatRequestPath opts (raw_path raw_request_desc);
              raw_query = raw_query raw_request_desc;
              headers = raw_headers raw_request_desc;
              body = raw_body raw_request_desc;
              original_method = raw_method raw_request_desc
          in (case resolveMethodOverride opts original_method (Some headers) of
                Inl e \<Rightarrow> Inl e
              | Inr method \<Rightarrow>
                  let query = parse_query E opts raw_query;
                      request_desc =
                        \<lparr>req_method = original_method, req_path = path, req_headers = headers,
                         req_body = body, req_query = fst query\<rparr>
                  in (case path_pattern E path of
                        Inl e \<Rightarrow> Inl e
                      | Inr pattern \<Rightarrow>
                         (case PatternMap_get web_entity_map pattern of
                            Inl e \<Rightarrow> Inl e
                          | Inr None \<Rightarrow>
                              Inr (refusal 404 (path @ '' not found'') method (snd query))
                          | Inr (Some endpoint) \<Rightarrow>
                              dispatch E endpoint method request_desc (snd query)))))"

subsection \<open>Where a request is dispatched\<close>

text \<open>
  The first half of \<open>route\<close>, up to the lookup of the endpoint: the endpoint found, the
  method after the override, the request descriptor handed to \<open>verify\<close> and the
  warnings printed so far; \<open>None\<close> when the request does not get that far.
\<close>

definition route_target ::
  "engine \<Rightarrow> Router_options \<Rightarrow> endpoint node \<Rightarrow> IncomingMessage \<Rightarrow>
   (endpoint \<times> string \<times> RequestDescriptor \<times> warning list) option" where
  "route_target E opts web_entity_map request =
     (case RequestParser_parse E request of
        Inl error \<Rightarrow> None
      | Inr raw \<Rightarrow>
         (case resolveMethodOverride opts (raw_method raw) (Some (raw_headers raw)) of
            Inl e \<Rightarrow> None
          | Inr method \<Rightarrow>
             (case path_pattern E (formatRequestPath opts (raw_path raw)) of
                Inl e \<Rightarrow> None
              | Inr pattern \<Rightarrow>
                 (case PatternMap_get web_entity_map pattern of
                    Inr (Some endpoint) \<Rightarrow>
                      Some (endpoint, method,
                            \<lparr>req_method = raw_method raw,
                             req_path = formatRequestPath opts (raw_path raw),
                             req_headers = raw_headers raw,
                             req_body = raw_body raw,
                             req_query = fst (parse_query E opts (raw_query raw))\<rparr>,
                            snd (parse_query E opts (raw_query raw)))
                  | _ \<Rightarrow> None))))"

text \<open>The method check of \<open>route\<close> lets the request through to \<open>verify\<close>.\<close>

definition allowed :: "endpoint \<Rightarrow> string \<Rightarrow> bool" where
  "allowed endpoint method =
     (is_Resource endpoint \<and> method = ''GET'' \<or> is_Api endpoint \<and> supports endpoint method)"

section \<open>A sample application\<close>

text \<open>
  An engine to run the model on: a header line is split at the first \<open>": "\<close> into a
  name and one descriptor without parameters, except that the value of an
  \<open>authorization\<close> line is cut at its first space into a token, a space and a token
  and goes through the credentials parser; \<open>Number\<close> knows \<open>"3"\<close>; a path becomes
  the pattern of its one token.
\<close>

definition sample_tokens :: "string \<Rightarrow> string list" where
  "sample_tokens v =
     (if CHR '' '' \<in> set v
      then [takeWhile (\<lambda>c. c \<noteq> CHR '' '') v, '' '', tl (dropWhile (\<lambda>c. c \<noteq> CHR '' '') v)]
      else [v])"

definition sample_parseHeader :: "string \<Rightarrow> error + (string \<times> HeaderDescriptor list)" where
  "sample_parseHeader line =
     (let name = takeWhile (\<lambda>c. c \<noteq> CHR '':'') line;
          v = drop 2 (dropWhile (\<lambda>c. c \<noteq> CHR '':'') line)
      in if name = ''authorization''
         then (case parseCredentialsHeader Inr (sample_tokens v) of
                 Inl e \<Rightarrow> Inl e
               | Inr ds \<Rightarrow> Inr (name, ds))
         else Inr (name, [\<lparr>desc_value = v, desc_params = None\<rparr>]))"

definition sample_engine :: engine where
  "sample_engine =
     \<lparr>parseHeader = sample_parseHeader,
      parseFormData = (\<lambda>body boundary. Inl TypeError),
      URLSearchParams = (\<lambda>s. []),
      Number = (\<lambda>s. if s = ''3'' then Integer 3 else NaN),
      TextDecoder = (\<lambda>label bytes. Inr bytes),
      JSON_read = sample_read,
      JSON_stringify = (\<lambda>v. ''null''),
      decodeURIComponent = Inr,
      path_pattern = (\<lambda>p. Inr \<lparr>tokens = [p], kind = Exact\<rparr>)\<rparr>"

text \<open>
  A protocol with the scheme and a challenge of \<open>DigestAuthProtocol\<close> that accepts every
  request it is asked to verify, and one with the scheme \<open>bearer\<close> that refuses every
  request with the status 500.
\<close>

definition digest_protocol :: AuthProtocol where
  "digest_protocol =
     \<lparr>scheme = Some ''Digest'',
      verify = (\<lambda>request. Inr (Some \<lparr>vr_ok = True, vr_scheme = Some ''Digest'',
                                      vr_status = None, vr_reason = None\<rparr>)),
      getChallenge = Some ''Digest nonce=\"n\", opaque=\"o\", algorithm=MD5, qop=\"auth\"''\<rparr>"




text \<open>
  Endpoints whose class declares \<open>put\<close> alone; the handler resolves to
  \<open>{created: true, location: "/x/1"}\<close>.
\<close>

definition put_handler :: handler where
  "put_handler params =
     \<lparr>res_ok = JObj [(''created'', JBool True), (''location'', JStr ''/x/1'')], res_error = None\<rparr>"

definition sample_api :: "AuthProtocol list \<Rightarrow> WebApi" where
  "sample_api protocols =
     WebEntity.extend (new_WebEntity \<lparr>tokens = [''/x''], kind = Exact\<rparr> protocols)
       \<lparr>own_properties = (\<lambda>name. None),
        class_prototype = [''put'' \<mapsto> DataProperty (Function put_handler)],
        superclass_prototypes = [],
        extract_params = (\<lambda>p. None)\<rparr>"

text \<open>
  An endpoint whose class declares no handler and extends a class that declares \<open>put\<close>.
\<close>

definition derived_api :: WebApi where
  "derived_api =
     WebEntity.extend (new_WebEntity \<lparr>tokens = [''/x''], kind = Exact\<rparr> [])
       \<lparr>own_properties = (\<lambda>name. None),
        class_prototype = (\<lambda>name. None),
        superclass_prototypes = [[''put'' \<mapsto> DataProperty (Function put_handler)]],
        extract_params = (\<lambda>p. None)\<rparr>"

definition sample_map :: "AuthProtocol list \<Rightarrow> endpoint node" where
  "sample_map protocols = set_keys [Literal ''/x''] (Some (Api (sample_api protocols))) new_Node"

definition sample_options :: Router_options where
  "sample_options =
     \<lparr>trailingSlashPolicy = remove, allowsPostMethodOverride = False, parsesQueryAsJson = True\<rparr>"

definition sample_request :: "string \<Rightarrow> (string \<times> raw_header) list \<Rightarrow> string list \<Rightarrow> IncomingMessage" where
  "sample_request method hs body =
     \<lparr>readable = True, im_method = method, url = ''/x'', im_headers = hs, chunks = body,
      stream_error = None\<rparr>"

section \<open>The spec's rule for the status of a PUT answer\<close>

text \<open>
  In the words of the specification: both \<open>noContent\<close> and \<open>created\<close> booleans give
  200; else \<open>noContent\<close> true gives 204; else \<open>created\<close> true gives 201; else an
  integer \<open>statusCode\<close> in [200, 599] is used; otherwise 200.
\<close>

definition put_status_spec :: "(string \<times> jsval) list \<Rightarrow> int" where
  "put_status_spec envelope =
     (if (\<exists>b. map_of envelope ''noContent'' = Some (JBool b)) \<and>
         (\<exists>b. map_of envelope ''created'' = Some (JBool b)) then 200
      else if map_of envelope ''noContent'' = Some (JBool True) then 204
      else if map_of envelope ''created'' = Some (JBool True) then 201
      else (case map_of envelope ''statusCode'' of
              Some (JInt i) \<Rightarrow> if 200 \<le> i \<and> i \<le> 599 then i else 200
            | _ \<Rightarrow> 200))"

section \<open>Sample requests\<close>

text \<open>
  The descriptor the credentials parser yields for \<open>Authorization: Digest abc\<close>, and a
  request descriptor that carries it.
\<close>

definition digest_authorization :: HeaderDescriptor where
  "digest_authorization =
     \<lparr>desc_value = ''Digest abc'',
      desc_params = Some [(''scheme'', ''digest''), (''token68'', ''abc'')]\<rparr>"

definition digest_request :: RequestDescriptor where
  "digest_request =
     \<lparr>req_method = ''GET'', req_path = ''/x'',
      req_headers = [''authorization'' \<mapsto> [digest_authorization]],
      req_body = JBuffer [], req_query = []\<rparr>"

text \<open>The request descriptor of a sample request with the given headers.\<close>

definition sample_desc :: "string \<Rightarrow> headers \<Rightarrow> RequestDescriptor" where
  "sample_desc method hs =
     \<lparr>req_method = method, req_path = ''/x'', req_headers = hs,
      req_body = JBuffer [], req_query = []\<rparr>"

section \<open>Properties of PatternMap\<close>

lemma last_only_Cons: "last_only (k # ks) \<Longrightarrow> last_only ks"
  by (cases ks) (auto simp: last_only_def)

lemma last_only_wild: "last_only (wildcard # ks) \<Longrightarrow> ks = []"
  by (cases ks) (auto simp: last_only_def)

lemma token_key_not_wildcard [simp]:
  "token_key t \<noteq> wildcard" "wildcard \<noteq> token_key t"
  by (simp_all add: token_key_def)

lemma getKeys_last_only: "getKeys p = Inr ks \<Longrightarrow> last_only ks"
  by (auto simp: getKeys_def last_only_def split: list.splits if_splits)

lemma getKeys_nonempty: "getKeys p = Inr ks \<Longrightarrow> ks \<noteq> []"
  by (auto simp: getKeys_def split: list.splits if_splits)

lemma val_at_new: "val_at ks new_Node = None"
  by (cases ks) (auto simp: new_Node_def)

lemma val_at_ins: "val_at ks (ins ks' w n) = (if ks = ks' then w else val_at ks n)"
proof (induction ks' w n arbitrary: ks rule: ins.induct)
  case (1 v x ds)
  then show ?case by (cases ks) auto
next
  case (2 k ks' v x ds)
  then show ?case
    by (cases ks) (auto simp: val_at_new split: option.splits)
qed

text \<open>\<open>set\<close> never removes an edge.\<close>

lemma set_keys_keeps_edges:
  "descendants n k \<noteq> None \<Longrightarrow> descendants (set_keys ks v n) k \<noteq> None"
  by (cases ks; cases n) (auto split: option.splits)

text \<open>
  When the keys are not shadowed in the map that \<open>set\<close> returns, \<open>set\<close> was a plain
  trie insertion.
\<close>

lemma own_path_set_keys_ins:
  "own_path ks (set_keys ks v n) \<Longrightarrow> last_only ks \<Longrightarrow> set_keys ks v n = ins ks v n"
proof (induction ks v n rule: set_keys.induct)
  case (1 v x ds)
  then show ?case by simp
next
  case (2 k ks v x ds)
  note op = "2.prems"(1)
  have lo: "last_only ks" using "2.prems"(2) by (rule last_only_Cons)
  show ?case
  proof (cases "ds wordwise_wildcard")
    case (Some c)
    with op have k: "k = wordwise_wildcard" by (auto split: option.splits)
    with Some op have "own_path ks (set_keys ks v c)" by simp
    with "2.IH" Some lo have "set_keys ks v c = ins ks v c" by simp
    with Some k show ?thesis by simp
  next
    case None
    note ww = None
    show ?thesis
    proof (cases "ds wildcard")
      case (Some c)
      with ww op have k: "k = wildcard" by (auto split: option.splits)
      with "2.prems"(2) have "ks = []" by (simp add: last_only_wild)
      with ww Some k show ?thesis by (cases c) simp
    next
      case None
      note wc = None
      show ?thesis
      proof (cases "ds k")
        case (Some c)
        with ww wc op have "own_path ks (set_keys ks v c)" by simp
        with "2.IH" ww wc Some lo have "set_keys ks v c = ins ks v c" by simp
        with ww wc Some show ?thesis by simp
      next
        case None
        with ww wc op have "own_path ks (set_keys ks v new_Node)" by simp
        with "2.IH" ww wc None lo have "set_keys ks v new_Node = ins ks v new_Node" by simp
        with ww wc None show ?thesis by simp
      qed
    qed
  qed
qed

text \<open>On keys that are not shadowed, \<open>get\<close> is a plain trie lookup.\<close>

lemma own_path_getNode:
  "own_path ks n \<Longrightarrow> last_only ks \<Longrightarrow> ks \<noteq> [] \<Longrightarrow>
   (case getNode_keys ks n of None \<Rightarrow> None | Some c \<Rightarrow> node_value c) = val_at ks n"
proof (induction ks n rule: own_path.induct)
  case (1 n)
  then show ?case by simp
next
  case (2 k ks x ds)
  have lo: "last_only ks" using "2.prems"(2) by (rule last_only_Cons)
  show ?case
  proof (cases "ds k")
    case None
    with "2.prems"(1) show ?thesis by (auto split: option.splits)
  next
    case (Some c)
    with "2.prems"(1) have op: "own_path ks c" by simp
    show ?thesis
    proof (cases "ks = []")
      case True
      with Some "2.prems"(1) show ?thesis by (auto split: option.splits)
    next
      case False
      with "2.prems"(2) have "k \<noteq> wildcard" using last_only_wild by blast
      with "2.prems"(1) have "ds wildcard = None" by auto
      moreover from "2.IH"[OF Some op lo False]
      have "(case getNode_keys ks c of None \<Rightarrow> None | Some c \<Rightarrow> node_value c) = val_at ks c" .
      ultimately show ?thesis using Some "2.prems"(1) by (auto split: option.splits)
    qed
  qed
qed

text \<open>Keys that are not shadowed after a \<open>set\<close> were not shadowed before it.\<close>

lemma own_path_before_set:
  "own_path ks (set_keys ks' w n) \<Longrightarrow> own_path ks n"
proof (induction ks n arbitrary: ks' rule: own_path.induct)
  case (1 n)
  then show ?case by simp
next
  case (2 k ks x ds)
  show ?case
  proof (cases ks')
    case Nil
    with "2.prems" show ?thesis by simp
  next
    case (Cons k' ks'')
    have a: "ds wildcard \<noteq> None \<longrightarrow> k = wildcard"
      using "2.prems" set_keys_keeps_edges[of "Node x ds" wildcard ks' w]
      by (cases "set_keys ks' w (Node x ds)") auto
    have b: "ds wordwise_wildcard \<noteq> None \<longrightarrow> k = wordwise_wildcard"
      using "2.prems" set_keys_keeps_edges[of "Node x ds" wordwise_wildcard ks' w]
      by (cases "set_keys ks' w (Node x ds)") auto
    show ?thesis
    proof (cases "ds k")
      case None
      with a b show ?thesis by simp
    next
      case (Some c)
      have "own_path ks c"
        using "2.prems" "2.IH"[OF Some] Some Cons
        by (auto split: option.splits if_splits)
      with a b Some show ?thesis by simp
    qed
  qed
qed

lemma PatternMap_get_keys:
  "getKeys p = Inr ks \<Longrightarrow>
   PatternMap_get m p = Inr (case getNode_keys ks m of None \<Rightarrow> None | Some c \<Rightarrow> node_value c)"
  by (simp add: PatternMap_get_def PatternMap_getNode_def split: option.splits)

lemma PatternMap_set_keys:
  "PatternMap_set m p v = Inr m' \<Longrightarrow> getKeys p = Inr ks \<Longrightarrow> m' = set_keys ks v m"
  by (auto simp: PatternMap_set_def split: if_splits)


text \<open>
  Claim C3, as stated: for every PatternMap and any two patterns whose token sequences
  differ, after \<open>set(p, v)\<close> and \<open>set(q, w)\<close> both succeed, \<open>get(p)\<close> returns \<open>v\<close> and
  \<open>get(q)\<close> returns \<open>w\<close>. It fails for the claim's own example: on the empty map,
  after \<open>set(/a/:x, 1)\<close> and \<open>set(/a/b, 2)\<close>, which both return normally, \<open>get(/a/:x)\<close>
  returns 2. The second \<open>set\<close> enters the \<open>#wordwise_wildcard\<close> child of the node of
  \<open>a\<close> and overwrites its value.
\<close>

theorem PatternMap_distinct_patterns_collide:
  "tokens P_ax \<noteq> tokens P_ab \<and>
   \<not> isl (PatternMap_set new_Node P_ax (Some (1::nat))) \<and>
   \<not> isl (PatternMap_set (projr (PatternMap_set new_Node P_ax (Some (1::nat)))) P_ab (Some 2)) \<and>
   PatternMap_get
     (projr (PatternMap_set (projr (PatternMap_set new_Node P_ax (Some (1::nat)))) P_ab (Some 2)))
     P_ax = Inr (Some 2)"
  by (simp add: PatternMap_get_def PatternMap_getNode_def PatternMap_set_def getKeys_def
      token_key_def startsWith_colon_def new_Node_def P_ax_def P_ab_def)

text \<open>
  Claim C3, amended: for every PatternMap and any two patterns \<open>p\<close> and \<open>q\<close> whose key
  sequences differ (the tokens with every parameter read as \<open>#wordwise_wildcard\<close> and
  the final \<open>*\<close> of a forward pattern as \<open>#wildcard\<close>), after \<open>set(p, v)\<close> and
  \<open>set(q, w)\<close> both succeed, \<open>get(p)\<close> returns \<open>v\<close> and \<open>get(q)\<close> returns \<open>w\<close>,
  provided that in the resulting map neither key sequence is shadowed: no node on its
  path has a \<open>#wildcard\<close> or \<open>#wordwise_wildcard\<close> child other than the child its
  own key names.
\<close>

theorem PatternMap_set_set_get:
  assumes sp: "PatternMap_set m p v = Inr m1"
    and sq: "PatternMap_set m1 q w = Inr m2"
    and kp: "getKeys p = Inr kp"
    and kq: "getKeys q = Inr kq"
    and ne: "kp \<noteq> kq"
    and op: "own_path kp m2"
    and oq: "own_path kq m2"
  shows "PatternMap_get m2 p = Inr v \<and> PatternMap_get m2 q = Inr w"
proof -
  have m1: "m1 = set_keys kp v m" using sp kp by (rule PatternMap_set_keys)
  have m2: "m2 = set_keys kq w m1" using sq kq by (rule PatternMap_set_keys)
  have lp: "last_only kp" and lq: "last_only kq"
    using kp kq by (auto dest: getKeys_last_only)
  have np: "kp \<noteq> []" and nq: "kq \<noteq> []"
    using kp kq by (auto dest: getKeys_nonempty)
  have i2: "m2 = ins kq w m1"
    using oq lq unfolding m2 by (rule own_path_set_keys_ins)
  have "own_path kp m1" using op unfolding m2 by (rule own_path_before_set)
  then have i1: "m1 = ins kp v m"
    using lp unfolding m1 by (rule own_path_set_keys_ins)
  have "PatternMap_get m2 p = Inr (val_at kp m2)"
    by (simp only: PatternMap_get_keys[OF kp] own_path_getNode[OF op lp np])
  moreover have "val_at kp m2 = v"
    using ne by (simp add: i2 i1 val_at_ins)
  moreover have "PatternMap_get m2 q = Inr (val_at kq m2)"
    by (simp only: PatternMap_get_keys[OF kq] own_path_getNode[OF oq lq nq])
  moreover have "val_at kq m2 = w"
    by (simp add: i2 val_at_ins)
  ultimately show ?thesis by simp
qed

theorem PatternMap_set_set_get_witness:
  "PatternMap_set new_Node P_ab (Some 1) = Inr M_ab \<and>
   PatternMap_set M_ab P_ac (Some 2) = Inr M_ab_ac \<and>
   getKeys P_ab = Inr [Literal ''a'', Literal ''b''] \<and>
   getKeys P_ac = Inr [Literal ''a'', Literal ''c''] \<and>
   own_path [Literal ''a'', Literal ''b''] M_ab_ac \<and>
   own_path [Literal ''a'', Literal ''c''] M_ab_ac \<and>
   PatternMap_get M_ab_ac P_ab = Inr (Some 1) \<and>
   PatternMap_get M_ab_ac P_ac = Inr (Some 2)"
  using PatternMap_set_set_get[of new_Node P_ab "Some 1" M_ab P_ac "Some 2" M_ab_ac
      "[Literal ''a'', Literal ''b'']" "[Literal ''a'', Literal ''c'']"]
  by (simp add: PatternMap_set_def getKeys_def token_key_def startsWith_colon_def new_Node_def
      P_ab_def P_ac_def M_ab_def M_ab_ac_def)




section \<open>Properties of parseJson\<close>

lemma internalize_proto_key:
  "internalize (parseJson_reviver r) ''__proto__'' v = JUndefined"
  by (cases v) (simp_all add: parseJson_reviver_def)

lemma internalize_no_proto:
  "no_proto (internalize (parseJson_reviver None) name v)"
  "no_proto_props (internalize_props (parseJson_reviver None) ps)"
  "no_proto_elems (internalize_elems (parseJson_reviver None) i xs)"
proof (induction "parseJson_reviver None" name v and "parseJson_reviver None" ps
    and "parseJson_reviver None" i xs rule: internalize_internalize_props_internalize_elems.induct)
  case (11 p ps)
  then show ?case
    by (cases "fst p = ''__proto__''") (auto simp: internalize_proto_key split: jsval.splits)
qed (auto simp: parseJson_reviver_def)

text \<open>
  Claim C9: for every string accepted by the JSON body decoder, the resulting value has
  no own property named \<open>__proto__\<close> at any nesting depth. The body decoder calls
  \<open>parseJson(json)\<close> without a reviver; the statement holds for every JSON reader.
\<close>

theorem parseJson_no_proto:
  "parseJson read json None = Inr v \<Longrightarrow> no_proto v"
  by (auto simp: parseJson_def internalize_no_proto split: sum.splits)

theorem parseJson_no_proto_witness:
  "parseJson sample_read sample_json None = Inr (JObj [(''a'', JArr [JObj [(''b'', JInt 2)]])]) \<and>
   no_proto (JObj [(''a'', JArr [JObj [(''b'', JInt 2)]])])"
  using parseJson_no_proto[of sample_read sample_json "JObj [(''a'', JArr [JObj [(''b'', JInt 2)]])]"]
  by (simp add: parseJson_def sample_read_def parseJson_reviver_def)

section \<open>Properties of the method override\<close>

text \<open>
  Claim C8: the override applies only when \<open>allowsPostMethodOverride\<close> is enabled and
  the original method is \<open>POST\<close>; the headers \<open>X-HTTP-Method\<close>,
  \<open>X-HTTP-Method-Override\<close>, \<open>X-Method-Override\<close> are consulted in that order; the
  first one present wins and its first value, in upper case, is the dispatch method; for
  any other request or with the option disabled the original method is kept. (A header
  present with no descriptor at all, which the header parser never yields, makes the
  function throw.)
\<close>

theorem resolveMethodOverride_rule:
  "resolveMethodOverride opts method (Some hs) =
     (if allowsPostMethodOverride opts \<and> method = ''POST'' then
        (case hs ''x-http-method'' of
           Some (d # ds) \<Rightarrow> Inr (toUpperCase (desc_value d))
         | Some [] \<Rightarrow> Inl TypeError
         | None \<Rightarrow>
            (case hs ''x-http-method-override'' of
               Some (d # ds) \<Rightarrow> Inr (toUpperCase (desc_value d))
             | Some [] \<Rightarrow> Inl TypeError
             | None \<Rightarrow>
                (case hs ''x-method-override'' of
                   Some (d # ds) \<Rightarrow> Inr (toUpperCase (desc_value d))
                 | Some [] \<Rightarrow> Inl TypeError
                 | None \<Rightarrow> Inr method)))
      else Inr method)"
  by (auto simp: resolveMethodOverride_def first_value_upper_def Let_def
      split: option.splits list.splits)

theorem resolveMethodOverride_rule_witness:
  "resolveMethodOverride override_on ''POST'' (Some override_headers) = Inr ''PUT'' \<and>
   resolveMethodOverride override_on ''GET'' (Some override_headers) = Inr ''GET''"
  using resolveMethodOverride_rule[of override_on "''POST''" override_headers]
    resolveMethodOverride_rule[of override_on "''GET''" override_headers]
  by (simp add: override_on_def override_headers_def toUpperCase_def toUpperCase_char_def ascii_lower_def
      ascii_upper_def)

section \<open>Properties of route\<close>

subsection \<open>The shape of route\<close>

lemma route_target_dispatch:
  "route_target E opts m request = Some (ep, method, rd, ws) \<Longrightarrow>
   route E opts m request = dispatch E ep method rd ws"
  by (auto simp: route_target_def route_def Let_def split: sum.splits option.splits)


lemma dispatch_allowed:
  "allowed ep method \<Longrightarrow>
   dispatch E ep method rd ws =
     (case WebEntity_verify (entity_of ep) rd of
        Inl e \<Rightarrow> Inl e
      | Inr v \<Rightarrow>
         (let verification_result = (case v of None \<Rightarrow> ok_false | Some r \<Rightarrow> r)
          in if \<not> vr_ok verification_result
             then Inr (unauthorized E (entity_of ep) verification_result method ws)
             else (case ep of
                     Resource r \<Rightarrow> route_resource r rd ws
                   | Api a \<Rightarrow> route_api E a method rd ws
                   | Entity e \<Rightarrow> Inl TypeError)))"
  unfolding dispatch_def allowed_def
  by (simp only: de_Morgan_conj de_Morgan_disj not_not if_not_P)



subsection \<open>The sample application, evaluated\<close>

lemmas credentials_defs =
  parseCredentialsHeader_def start_def nextDesc_def step_def finish_def and_then_def goto_def
  thrown_in_def yield_desc_def append_buffer_def append_buffer_if_any_def buffer_as_value_def
  push_def set_param_def is_wsp_def isQuotedString_def split_scheme_and_token68_def
  setDescParam_def Let_def

lemma lower_Digest: "toLowerCase ''Digest'' = ''digest''"
  and lower_Bearer: "toLowerCase ''Bearer'' = ''bearer''"
  and lower_Basic: "toLowerCase ''Basic'' = ''basic''"
  by (simp_all add: toLowerCase_def toLowerCase_char_def ascii_lower_def ascii_upper_def)

lemma sample_digest_credentials:
  "parseCredentialsHeader Inr [''Digest'', '' '', ''abc''] = Inr [digest_authorization]"
  by (simp add: credentials_defs lower_Digest digest_authorization_def)

lemma sample_parse_headers_Nil: "parse_headers E [] acc = Inr acc"
  by simp

lemma sample_parse:
  "RequestParser_parse sample_engine (sample_request method [] []) =
     Inr \<lparr>raw_method = method, raw_path = ''/x'', raw_headers = (\<lambda>_. None), raw_query = [],
          raw_body = JBuffer []\<rparr>"
  by (simp add: RequestParser_parse_def sample_request_def sample_engine_def build_result_def
      decode_body_def declared_content_length_def actual_content_length_def ge_zero_def
      split_url_def starts_with_def)

lemma sample_no_override:
  "resolveMethodOverride sample_options method hs = Inr method"
  by (simp add: resolveMethodOverride_def sample_options_def)

lemma sample_get_x:
  "PatternMap_get (sample_map ps) \<lparr>tokens = [''/x''], kind = Exact\<rparr> =
     Inr (Some (Api (sample_api ps)))"
  by (simp add: PatternMap_get_def PatternMap_getNode_def getKeys_def token_key_def
      startsWith_colon_def sample_map_def new_Node_def)

lemma sample_path: "path_pattern sample_engine ''/x'' = Inr \<lparr>tokens = [''/x''], kind = Exact\<rparr>"
  by (simp add: sample_engine_def)

lemma sample_format: "formatRequestPath sample_options ''/x'' = ''/x''"
  by (simp add: formatRequestPath_def sample_options_def strip_slashes_def)

lemma sample_query: "parse_query sample_engine sample_options [] = ([], [])"
  by (simp add: parse_query_def sample_options_def)

lemma sample_target_of_parse:
  "RequestParser_parse sample_engine request =
     Inr \<lparr>raw_method = method, raw_path = ''/x'', raw_headers = hs, raw_query = [],
          raw_body = JBuffer []\<rparr> \<Longrightarrow>
   route_target sample_engine sample_options (sample_map ps) request =
     Some (Api (sample_api ps), method, sample_desc method hs, [])"
  by (simp add: route_target_def sample_no_override sample_path sample_format sample_query
      sample_get_x sample_desc_def)

lemma sample_target:
  "route_target sample_engine sample_options (sample_map ps) (sample_request method [] []) =
     Some (Api (sample_api ps), method, sample_desc method (\<lambda>_. None), [])"
  by (rule sample_target_of_parse) (rule sample_parse)

lemma upper_PUT: "toUpperCase ''PUT'' = ''PUT''" and upper_GET: "toUpperCase ''GET'' = ''GET''"
  and lower_PUT: "toLowerCase ''PUT'' = ''put''" and lower_GET: "toLowerCase ''GET'' = ''get''"
  by (simp_all add: toUpperCase_def toUpperCase_char_def toLowerCase_def toLowerCase_char_def ascii_lower_def ascii_upper_def)

lemma sample_supports_PUT: "supports (Api (sample_api ps)) ''PUT''"
  by (simp add: supports_def upper_PUT lower_PUT HttpMethods_def sample_api_def
      WebEntity.extend_def)


lemma sample_entity:
  "entity_of (Api (sample_api ps)) = new_WebEntity \<lparr>tokens = [''/x''], kind = Exact\<rparr> ps"
  by (simp add: entity_of_def sample_api_def WebEntity.extend_def WebEntity.truncate_def
      new_WebEntity_def)

subsection \<open>Method gating\<close>





text \<open>
  A handler inherited from a superclass is not one the class declares: \<open>supports\<close> is
  false for it, though the property is there to be called.
\<close>

lemma inherited_handler_not_supported:
  "\<not> supports (Api derived_api) ''PUT'' \<and> \<not> overridden derived_api ''PUT'' \<and>
   get_property derived_api ''put'' = Some (Function put_handler)"
  by (simp add: supports_def overridden_def get_property_def derived_api_def
      WebEntity.extend_def upper_PUT lower_PUT HttpMethods_def)


subsection \<open>The PUT envelope\<close>

lemma is_boolean_read:
  "is_boolean (read_prop (JObj env) k) = (\<exists>b. map_of env k = Some (JBool b))"
  by (simp add: is_boolean_def read_prop_def props_of_def split: option.splits jsval.splits)

lemma is_true_read:
  "is_true (read_prop (JObj env) k) = (map_of env k = Some (JBool True))"
  by (auto simp: is_true_def read_prop_def props_of_def split: option.splits jsval.splits)

lemma valid_status_read:
  "(if valid_status (read_prop (JObj env) k) then int_of (read_prop (JObj env) k) else 200) =
     (case map_of env k of Some (JInt i) \<Rightarrow> if 200 \<le> i \<and> i \<le> 599 then i else 200 | _ \<Rightarrow> 200)"
  by (simp add: valid_status_def int_of_def read_prop_def props_of_def
      split: option.splits jsval.splits)

lemma boolean_and_true:
  "((\<exists>b. x = Some (JBool b)) \<and> x = Some (JBool True)) = (x = Some (JBool True))"
  by auto

lemma flagged_status_put:
  "flagged_status (read_prop (JObj env) ''statusCode'') (read_prop (JObj env) ''noContent'')
     (read_prop (JObj env) ''created'') 201 = put_status_spec env"
  by (simp only: flagged_status_def put_status_spec_def is_boolean_read is_true_read
      valid_status_read[symmetric] boolean_and_true)

lemma respond_put:
  "respond ''PUT'' \<lparr>res_ok = JObj env, res_error = None\<rparr> calls ws =
     \<lparr>statusCode = put_status_spec env, statusMessage = None,
      headers_sent = as_headers (without [''statusCode'', ''noContent'', ''created''] env),
      written = None, handler_calls = calls,
      warnings = ws @ flagged_warnings (read_prop (JObj env) ''noContent'')
                        (read_prop (JObj env) ''created'') 201 (put_status_spec env)\<rparr>"
  by (simp add: respond_def Let_def flagged_status_put) (simp add: props_of_def)

text \<open>
  Claim C6: for every \<open>PUT\<close> request whose handler resolves to an envelope object, the
  status follows the rule of the specification (\<open>put_status_spec\<close>), with a warning when
  both \<open>noContent\<close> and \<open>created\<close> are booleans; the envelope without \<open>statusCode\<close>,
  \<open>noContent\<close> and \<open>created\<close> is sent as the response headers; no body is written.
\<close>

theorem put_envelope:
  assumes "route_target E opts m request = Some (Api a, ''PUT'', rd, ws)"
    and "supports (Api a) ''PUT''"
    and "WebEntity_verify (entity_of (Api a)) rd = Inr (Some vr)"
    and "vr_ok vr"
    and "handler_params E a ''PUT'' rd = Inr params"
    and "get_property a ''put'' = Some (Function f)"
    and "f params = \<lparr>res_ok = JObj envelope, res_error = None\<rparr>"
  shows "\<exists>r. route E opts m request = Inr r \<and>
           statusCode r = put_status_spec envelope \<and>
           headers_sent r =
             map (\<lambda>kv. (fst kv, HVal (snd kv)))
               (filter (\<lambda>kv. fst kv \<noteq> ''statusCode'' \<and> fst kv \<noteq> ''noContent'' \<and>
                               fst kv \<noteq> ''created'') envelope) \<and>
           written r = None \<and>
           handler_calls r = [(''put'', params)] \<and>
           (((\<exists>b. map_of envelope ''noContent'' = Some (JBool b)) \<and>
             (\<exists>b. map_of envelope ''created'' = Some (JBool b))) \<longrightarrow>
            BothFlags \<in> set (warnings r))"
proof -
  have al: "allowed (Api a) ''PUT''" using assms(2) by (simp add: allowed_def is_Api_def)
  have "route E opts m request = dispatch E (Api a) ''PUT'' rd ws"
    using assms(1) by (rule route_target_dispatch)
  also have "\<dots> = route_api E a ''PUT'' rd ws"
    using assms(3,4) by (simp add: dispatch_allowed[OF al])
  also have "\<dots> = Inr (respond ''PUT'' \<lparr>res_ok = JObj envelope, res_error = None\<rparr>
                          [(''put'', params)] ws)"
    using assms(5,6,7) by (simp add: route_api_def lower_PUT)
  finally have r: "route E opts m request =
      Inr (respond ''PUT'' \<lparr>res_ok = JObj envelope, res_error = None\<rparr> [(''put'', params)] ws)" .
  have fw: "((\<exists>b. map_of envelope ''noContent'' = Some (JBool b)) \<and>
             (\<exists>b. map_of envelope ''created'' = Some (JBool b))) \<Longrightarrow>
      flagged_warnings (read_prop (JObj envelope) ''noContent'')
        (read_prop (JObj envelope) ''created'') 201 (put_status_spec envelope) = [BothFlags]"
    by (simp add: flagged_warnings_def is_boolean_read)
  show ?thesis
    unfolding r respond_put
    by (auto simp: as_headers_def without_def fw)
qed

lemma sample_verify_open:
  "WebEntity_verify (entity_of (Api (sample_api []))) rd = Inr (Some ok_true)"
  by (simp add: sample_entity WebEntity_verify_def authRequired_def new_WebEntity_def
      protocol_map_def)

lemma sample_params_put:
  "handler_params sample_engine (sample_api ps) ''PUT'' (sample_desc ''PUT'' hs) =
     Inr [(''body'', JBuffer [])]"
  by (simp add: handler_params_def sample_desc_def sample_api_def WebEntity.extend_def
      methods_should_ignore_content_def)

lemma sample_put_property: "get_property (sample_api ps) ''put'' = Some (Function put_handler)"
  by (simp add: get_property_def sample_api_def WebEntity.extend_def)

theorem put_envelope_witness:
  "route sample_engine sample_options (sample_map []) (sample_request ''PUT'' [] []) =
     Inr \<lparr>statusCode = 201, statusMessage = None,
          headers_sent = [(''location'', HVal (JStr ''/x/1''))], written = None,
          handler_calls = [(''put'', [(''body'', JBuffer [])])], warnings = []\<rparr> \<and>
   put_status_spec [(''created'', JBool True), (''location'', JStr ''/x/1'')] = 201"
proof -
  have s: "put_status_spec [(''created'', JBool True), (''location'', JStr ''/x/1'')] = 201"
    by (simp add: put_status_spec_def)
  have "vr_ok ok_true" by (simp add: ok_true_def)
  from put_envelope[OF sample_target sample_supports_PUT sample_verify_open this
      sample_params_put sample_put_property, of "[(''created'', JBool True), (''location'', JStr ''/x/1'')]"]
  obtain r where r: "route sample_engine sample_options (sample_map []) (sample_request ''PUT'' [] []) = Inr r"
    and "statusCode r = 201"
    and "headers_sent r = [(''location'', HVal (JStr ''/x/1''))]"
    and "written r = None"
    and "handler_calls r = [(''put'', [(''body'', JBuffer [])])]"
    by (auto simp: put_handler_def s)
  moreover have "route sample_engine sample_options (sample_map [])
      (sample_request ''PUT'' [] []) =
      Inr (respond ''PUT'' (put_handler [(''body'', JBuffer [])]) [(''put'', [(''body'', JBuffer [])])] [])"
    using sample_supports_PUT[of "[]"]
    by (simp add: route_target_dispatch[OF sample_target] dispatch_allowed allowed_def is_Api_def
        sample_verify_open ok_true_def route_api_def lower_PUT sample_params_put
        sample_put_property)
  ultimately show ?thesis
    using s by (simp add: put_handler_def respond_put flagged_warnings_def read_prop_def
        props_of_def is_boolean_def as_headers_def without_def)
qed

subsection \<open>The Content-Length check\<close>






subsection \<open>A failed verification\<close>


lemma unauthorized_fields:
  "statusCode (unauthorized E e vr method ws) = unauthorized_status vr"
  "statusMessage (unauthorized E e vr method ws) =
     Some (if unauthorized_status vr = 401 then ''Unauthorized''
           else if unauthorized_status vr = 403 then ''Forbidden'' else ''Bad Request'')"
  "map_of (headers_sent (unauthorized E e vr method ws)) ''www-authenticate'' =
     Some (HVal (case www_authenticate E e vr of None \<Rightarrow> JUndefined | Some v \<Rightarrow> JStr v))"
  "handler_calls (unauthorized E e vr method ws) = []"
  by (simp_all add: unauthorized_def Let_def)

lemma dispatch_unauthorized:
  assumes "allowed ep method"
    and "WebEntity_verify (entity_of ep) rd = Inr v"
    and "\<not> vr_ok (case v of None \<Rightarrow> ok_false | Some r \<Rightarrow> r)"
  shows "dispatch E ep method rd ws =
     Inr (unauthorized E (entity_of ep) (case v of None \<Rightarrow> ok_false | Some r \<Rightarrow> r) method ws)"
  using assms(2,3) by (simp add: dispatch_allowed[OF assms(1)] Let_def)



lemma sample_parse_authorization:
  "sample_parseHeader (''authorization: '' @ v) = Inr (''authorization'', [d]) \<Longrightarrow>
   RequestParser_parse sample_engine (sample_request method [(''authorization'', Single v)] []) =
     Inr \<lparr>raw_method = method, raw_path = ''/x'', raw_headers = [''authorization'' \<mapsto> [d]],
          raw_query = [], raw_body = JBuffer []\<rparr>"
  by (simp add: RequestParser_parse_def sample_request_def sample_engine_def build_result_def
      decode_body_def declared_content_length_def actual_content_length_def ge_zero_def
      split_url_def starts_with_def header_line_def)






subsection \<open>The scheme parameter of parsed credentials\<close>

text \<open>
  Every descriptor the credentials parser yields has gone through
  \<open>split_scheme_and_token68\<close>, so its parameter \<open>scheme\<close> is in lower case; and
  \<open>WebEntity.verify\<close> looks that parameter up as it is. Hence no authorization header
  at all selects a protocol whose scheme is not in lower case.
\<close>

lemma toLowerCase_char_idem: "toLowerCase_char (toLowerCase_char c) = toLowerCase_char c"
  by (simp add: toLowerCase_char_def ascii_lower_def ascii_upper_def)

lemma toLowerCase_idem: "toLowerCase (toLowerCase s) = toLowerCase s"
  by (simp add: toLowerCase_def toLowerCase_char_idem)

lemma toLowerCase_char_quote:
  "(toLowerCase_char c = CHR 0x22) = (c = CHR 0x22)"
  "(CHR 0x22 = toLowerCase_char c) = (c = CHR 0x22)"
  by (auto simp: toLowerCase_char_def ascii_lower_def ascii_upper_def)

lemma toLowerCase_quote: "(CHR 0x22 \<in> set (toLowerCase s)) = (CHR 0x22 \<in> set s)"
  by (auto simp: toLowerCase_def toLowerCase_char_quote image_iff)

lemma not_quoted: "CHR 0x22 \<notin> set s \<Longrightarrow> \<not> isQuotedString s"
  by (cases s) (auto simp: isQuotedString_def)

lemma hd_split_space: "set (hd (split_space acc s)) \<subseteq> set acc \<union> set s"
  by (induction acc s rule: split_space.induct) auto

lemma setDescParam_value:
  "setDescParam u d k v = Inr d' \<Longrightarrow> desc_value d' = desc_value d"
  by (auto simp: setDescParam_def Let_def split: if_splits sum.splits)

lemma setDescParam_keeps:
  "setDescParam u d k v = Inr d' \<Longrightarrow> lower_scheme d \<Longrightarrow> lower_scheme d'"
  by (auto simp: setDescParam_def Let_def lower_scheme_def split: if_splits sum.splits option.splits)

lemma setDescParam_scheme:
  "setDescParam u d ''scheme'' (toLowerCase s) = Inr d' \<Longrightarrow> CHR 0x22 \<notin> set s \<Longrightarrow>
   lower_scheme d'"
  using not_quoted[of "toLowerCase s"]
  by (auto simp: setDescParam_def Let_def lower_scheme_def toLowerCase_quote toLowerCase_idem
      map_of_append split: if_splits sum.splits option.splits)

lemma split_lower_scheme:
  assumes "split_scheme_and_token68 u d = Inr d'" and "CHR 0x22 \<notin> set (desc_value d)"
  shows "lower_scheme d'"
proof -
  have q: "CHR 0x22 \<notin> set (hd (split_space [] (desc_value d)))"
    using hd_split_space[of "[]" "desc_value d"] assms(2) by auto
  from assms(1) obtain d1 where
    d1: "setDescParam u d ''scheme'' (toLowerCase (hd (split_space [] (desc_value d)))) = Inr d1"
    by (auto simp: split_scheme_and_token68_def Let_def split: sum.splits)
  have l1: "lower_scheme d1" using setDescParam_scheme[OF d1 q] .
  from assms(1) d1 have "d' = d1 \<or> (\<exists>t. setDescParam u d1 ''token68'' t = Inr d')"
    by (auto simp: split_scheme_and_token68_def Let_def split: sum.splits list.splits if_splits)
  then show ?thesis using l1 setDescParam_keeps by blast
qed

lemma proper_free: "proper t \<Longrightarrow> \<not> isQuotedString t \<Longrightarrow> CHR 0x22 \<notin> set t"
  by (auto simp: proper_def)

lemma quote_free_goto: "quote_free p \<Longrightarrow> quote_free (fst (goto s p))"
  by (simp add: quote_free_def goto_def)

lemma quote_free_thrown: "quote_free p \<Longrightarrow> quote_free (fst (thrown_in p e))"
  by (simp add: thrown_in_def)

lemma quote_free_push: "quote_free p \<Longrightarrow> CHR 0x22 \<notin> set t \<Longrightarrow> quote_free (push t p)"
  by (simp add: quote_free_def push_def)

lemma quote_free_eq: "quote_free (push ''='' p) = quote_free p"
  by (simp add: quote_free_def push_def)

lemma quote_free_append: "quote_free p \<Longrightarrow> quote_free (append_buffer p)"
  by (auto simp: quote_free_def append_buffer_def list_all_iff)

lemma quote_free_append_if: "quote_free p \<Longrightarrow> quote_free (append_buffer_if_any p)"
  by (simp add: append_buffer_if_any_def quote_free_append)

lemma quote_free_buffer: "quote_free p \<Longrightarrow> quote_free (buffer_as_value p)"
  by (auto simp: quote_free_def buffer_as_value_def list_all_iff)

lemma quote_free_value:
  "quote_free p \<Longrightarrow> CHR 0x22 \<notin> set t \<Longrightarrow>
   quote_free (p\<lparr>desc := (desc p)\<lparr>desc_value := t\<rparr>\<rparr>)"
  by (simp add: quote_free_def)

lemma quote_free_yield: "quote_free p \<Longrightarrow> quote_free (fst (yield_desc u p))"
  by (auto simp: yield_desc_def quote_free_def nextDesc_def split_lower_scheme split: sum.splits)

lemma quote_free_set_param: "quote_free p \<Longrightarrow> quote_free (fst (set_param u t s p))"
  by (auto simp: set_param_def Let_def quote_free_def setDescParam_value split: sum.splits)

lemma quote_free_and_then:
  "quote_free (fst r) \<Longrightarrow> (\<And>q. quote_free q \<Longrightarrow> quote_free (fst (f q))) \<Longrightarrow>
   quote_free (fst (and_then r f))"
  by (simp add: and_then_def split: option.splits)

lemmas quote_free_intros =
  quote_free_goto quote_free_thrown quote_free_push quote_free_append quote_free_append_if
  quote_free_buffer quote_free_value quote_free_yield quote_free_set_param quote_free_and_then

lemma quote_free_step:
  assumes "quote_free p" and "proper t"
  shows "quote_free (fst (step u p t))"
proof -
  have nq: "\<not> isQuotedString t \<Longrightarrow> CHR 0x22 \<notin> set t"
    using assms(2) by (rule proper_free)
  have eq: "t = ''='' \<Longrightarrow> CHR 0x22 \<notin> set t" by simp
  show ?thesis
    unfolding step_def
    by (cases "state p"; cases "isQuotedString t")
      (auto intro!: quote_free_intros simp: assms(1) nq eq isQuotedString_def)
qed

lemma quote_free_finish: "quote_free p \<Longrightarrow> quote_free (fst (finish u p))"
  unfolding finish_def
  by (cases "state p") (auto intro!: quote_free_intros)

lemma quote_free_run:
  "quote_free p \<Longrightarrow> list_all proper toks \<Longrightarrow> quote_free (fst (run u p toks))"
proof (induction toks arbitrary: p)
  case Nil
  then show ?case by (simp add: quote_free_finish)
next
  case (Cons t toks)
  then show ?case
    by (auto intro!: quote_free_and_then quote_free_step)
qed

lemma quote_free_start: "quote_free start"
  by (simp add: quote_free_def start_def nextDesc_def)

lemma credentials_lower_scheme:
  assumes "list_all proper toks" and "parseCredentialsHeader u toks = Inr ds"
  shows "list_all lower_scheme ds"
proof -
  have "list_all lower_scheme (yielded (fst (run u start toks)))"
    using quote_free_run[OF quote_free_start assms(1), of u] by (simp add: quote_free_def)
  with assms(2) show ?thesis
    by (auto simp: parseCredentialsHeader_def split: prod.splits list.splits option.splits)
qed

lemma verify_never_selects:
  assumes "req_headers rd ''authorization'' = Some (d # ds)"
    and "lower_scheme d"
    and "authRequired e"
    and "\<forall>kv \<in> set (auth_protocols e). \<exists>s. fst kv = Some s \<and> toLowerCase s \<noteq> s"
  shows "WebEntity_verify e rd = Inr (Some ok_false)"
proof -
  from assms(2) obtain ps s where ps: "desc_params d = Some ps" "map_of ps ''scheme'' = Some s"
    "toLowerCase s = s"
    by (auto simp: lower_scheme_def split: option.splits)
  have "map_of (auth_protocols e) (Some s) = None"
  proof (rule ccontr)
    assume "map_of (auth_protocols e) (Some s) \<noteq> None"
    then obtain p where "(Some s, p) \<in> set (auth_protocols e)"
      by (auto dest: map_of_SomeD)
    with assms(4) ps(3) show False by fastforce
  qed
  then show ?thesis
    using assms(1,3) ps by (simp add: WebEntity_verify_def getAuthProtocol_def)
qed




subsection \<open>A verification that resolves to nothing\<close>







subsection \<open>The scheme of the authorization header\<close>

lemma sample_digest_header:
  "sample_parseHeader ''authorization: Digest abc'' = Inr (''authorization'', [digest_authorization])"
  by (simp add: sample_parseHeader_def sample_tokens_def sample_digest_credentials)

lemma sample_digest_target:
  "route_target sample_engine sample_options (sample_map ps)
     (sample_request method [(''authorization'', Single ''Digest abc'')] []) =
   Some (Api (sample_api ps), method,
         sample_desc method [''authorization'' \<mapsto> [digest_authorization]], [])"
  using sample_digest_header
  by (intro sample_target_of_parse sample_parse_authorization) simp

lemma sample_digest_verify:
  "WebEntity_verify (entity_of (Api (sample_api [digest_protocol])))
     (sample_desc method [''authorization'' \<mapsto> [digest_authorization]]) = Inr (Some ok_false)"
  by (simp add: sample_entity WebEntity_verify_def authRequired_def new_WebEntity_def
      protocol_map_def getAuthProtocol_def sample_desc_def digest_protocol_def
      digest_authorization_def)

lemma sample_digest_route:
  "route sample_engine sample_options (sample_map [digest_protocol])
     (sample_request ''PUT'' [(''authorization'', Single ''Digest abc'')] []) =
   Inr (unauthorized sample_engine (entity_of (Api (sample_api [digest_protocol]))) ok_false
          ''PUT'' [])"
proof -
  have al: "allowed (Api (sample_api [digest_protocol])) ''PUT''"
    using sample_supports_PUT by (simp add: allowed_def is_Api_def)
  have nok: "\<not> vr_ok ok_false" by (simp add: ok_false_def)
  show ?thesis
    using dispatch_unauthorized[OF al sample_digest_verify] nok
    by (simp add: route_target_dispatch[OF sample_digest_target])
qed

text \<open>
  Claim C2 says that \<open>verify\<close> selects the protocol whose scheme equals the scheme of
  the authorization header up to case, and delegates to it. The code at a failing
  input: the credentials parser stores the scheme of \<open>Authorization: Digest abc\<close> in
  lower case; the map of the entity has the protocol under \<open>Digest\<close>, its own scheme;
  \<open>verify\<close> answers \<open>{ok: false}\<close> without asking the protocol, which would have
  accepted the request, and the router answers 401. By \<open>credentials_lower_scheme\<close> and
  \<open>verify_never_selects\<close> the same happens for every authorization header.
\<close>

theorem Digest_protocol_not_selected:
  "parseCredentialsHeader Inr [''Digest'', '' '', ''abc''] = Inr [digest_authorization] \<and>
   map_of (the (desc_params digest_authorization)) ''scheme'' = Some ''digest'' \<and>
   scheme digest_protocol = Some ''Digest'' \<and>
   toLowerCase ''Digest'' = ''digest'' \<and>
   verify digest_protocol digest_request =
     Inr (Some \<lparr>vr_ok = True, vr_scheme = Some ''Digest'', vr_status = None, vr_reason = None\<rparr>) \<and>
   WebEntity_verify (new_WebEntity \<lparr>tokens = [''/x''], kind = Exact\<rparr> [digest_protocol])
     digest_request = Inr (Some ok_false) \<and>
   route sample_engine sample_options (sample_map [digest_protocol])
     (sample_request ''PUT'' [(''authorization'', Single ''Digest abc'')] []) =
   Inr (unauthorized sample_engine (entity_of (Api (sample_api [digest_protocol]))) ok_false
          ''PUT'' []) \<and>
   statusCode (unauthorized sample_engine (entity_of (Api (sample_api [digest_protocol])))
          ok_false ''PUT'' []) = 401"
  by (simp add: sample_digest_credentials sample_digest_route lower_Digest unauthorized_fields
      unauthorized_status_def ok_false_def)
    (simp add: digest_authorization_def digest_protocol_def digest_request_def
      WebEntity_verify_def authRequired_def new_WebEntity_def protocol_map_def
      getAuthProtocol_def ok_false_def)

end
